theory Spec2Isabelle
  imports Main
begin

section \<open>Errors and log records\<close>

text \<open>
  Every \<^verbatim>\<open>raise\<close> of the client is a value of \<open>error\<close>. All domain errors are
  \<^verbatim>\<open>BentoMLException\<close> in the source and differ by their message; each constructor
  stands for one raise site and carries the values the source formats into the message.
\<close>

datatype status_code = OK | NOT_FOUND | OTHER_CODE nat

record status =
  status_code :: status_code
  error_message :: string

datatype storage_type = LOCAL | S3 | GCS | OTHER_STORAGE nat

datatype error =
    AlreadyRegistered string string
      \<comment> \<open>"BentoService bundle name:version already registered in repository. ..."\<close>
  | FailedAccessingYataiService status
      \<comment> \<open>"Failed accessing YataiService. code:message"\<close>
  | ErrorAddingBento status
      \<comment> \<open>"Error adding BentoService bundle to repository: code:message"\<close>
  | ErrorSavingBundle string int string
      \<comment> \<open>"Error saving BentoService bundle to S3|GCS.http status: http body"\<close>
  | UriTypeNotSupported storage_type string
      \<comment> \<open>"Error saving Bento to target repository, URI type t at uri not supported"\<close>
  | NameOrVersionMissing
      \<comment> \<open>"BentoService name or version is missing. Please provide in the format of name:version"\<close>
  | BentoNotFound string string status
      \<comment> \<open>"BentoService name:version not found - code:message"\<close>
  | ListFailed status
      \<comment> \<open>"code:message" raised by list\<close>
  | TooMuchArguments
      \<comment> \<open>"Too much arguments"\<close>
  | ValueError string
      \<comment> \<open>Python's own error of a tuple assignment whose right side has the wrong length\<close>
  | External string
      \<comment> \<open>an exception raised inside a collaborator that is not part of the client\<close>

datatype log_entry =
    WarnDuplicatedKey string
  | InfoSavedTo string string string
  | InfoSavedToRemote string string string
  | ErrorFailedToDelete string string status
  | InfoDeleted string string
  | InfoDeletingTag string
  | InfoDeletingNameVersion string "string option"
  | InfoDeletingAll
  | InfoDeletingFiltered "string option" "string option"

section \<open>Dictionaries\<close>

text \<open>
  A Python dictionary (and a protobuf string map) is an association list in insertion
  order with unique keys: \<^verbatim>\<open>d[k] = v\<close> overwrites in place or appends, \<^verbatim>\<open>d.update(e)\<close>
  assigns the entries of \<open>e\<close> one after the other.
\<close>

type_synonym labels = "(string \<times> string) list"

fun dict_set :: "'k \<Rightarrow> 'v \<Rightarrow> ('k \<times> 'v) list \<Rightarrow> ('k \<times> 'v) list" where
  "dict_set k v [] = [(k, v)]"
| "dict_set k v (kv # d) = (if fst kv = k then (k, v) # d else kv # dict_set k v d)"

definition dict_update :: "('k \<times> 'v) list \<Rightarrow> ('k \<times> 'v) list \<Rightarrow> ('k \<times> 'v) list" where
  "dict_update d e = fold (\<lambda>kv acc. dict_set (fst kv) (snd kv) acc) e d"

section \<open>cli/utils.py: parse_key_value_pairs\<close>

text \<open>
  \<^verbatim>\<open>str.split(sep)\<close> with a one-character separator: every occurrence of the separator
  cuts, so the result has one more piece than the string has separators (and is never
  empty). \<^verbatim>\<open>str.split(sep, 1)\<close> cuts at the first occurrence only.
\<close>

fun str_split :: "char \<Rightarrow> string \<Rightarrow> string list" where
  "str_split sep [] = [[]]"
| "str_split sep (c # cs) =
     (if c = sep then [] # str_split sep cs
      else (case str_split sep cs of
              [] \<Rightarrow> [[c]]
            | p # ps \<Rightarrow> (c # p) # ps))"

definition str_split1 :: "char \<Rightarrow> string \<Rightarrow> string list" where
  "str_split1 sep s =
     (if sep \<in> set s
      then [takeWhile (\<lambda>c. c \<noteq> sep) s, tl (dropWhile (\<lambda>c. c \<noteq> sep) s)]
      else [s])"

text \<open>
  \<^verbatim>\<open>str.strip()\<close> removes leading and trailing whitespace. A character of the model is
  a code point below 256; of these \<^verbatim>\<open>str.isspace\<close> holds for the codes 9 to 13, 28 to
  32, 133 (next line) and 160 (no-break space). The whitespace of Unicode beyond 255
  has no character in the model.
\<close>

definition is_space :: "char \<Rightarrow> bool" where
  "is_space c =
     (let n = of_char c :: nat
      in (9 \<le> n \<and> n \<le> 13) \<or> (28 \<le> n \<and> n \<le> 32) \<or> n = 133 \<or> n = 160)"

definition str_strip :: "string \<Rightarrow> string" where
  "str_strip s = rev (dropWhile is_space (rev (dropWhile is_space s)))"

text \<open>
  The warnings logged so far are
  returned beside the result, since they are written also when a later token raises.

  \<^verbatim>\<open>
  def parse_key_value_pairs(key_value_pairs_str):
      result = {}
      if key_value_pairs_str:
          for key_value_pair in key_value_pairs_str.split(','):
              key, value = key_value_pair.split('=')
              key = key.strip()
              value = value.strip()
              if key in result:
                  logger.warning("duplicated key '%s' found string map parameter", key)
              result[key] = value
      return result
  \<close>
\<close>

fun parse_pairs_loop ::
  "string list \<Rightarrow> (string \<times> string) list \<Rightarrow> log_entry list
     \<Rightarrow> (error + (string \<times> string) list) \<times> log_entry list" where
  "parse_pairs_loop [] result lg = (Inr result, lg)"
| "parse_pairs_loop (key_value_pair # rest) result lg =
     (case str_split (CHR ''='') key_value_pair of
        [key, val] \<Rightarrow>
          (let key = str_strip key;
               val = str_strip val;
               lg = (if key \<in> fst ` set result then lg @ [WarnDuplicatedKey key] else lg)
           in parse_pairs_loop rest (dict_set key val result) lg)
      | [_] \<Rightarrow> (Inl (ValueError ''not enough values to unpack (expected 2, got 1)''), lg)
      | _ \<Rightarrow> (Inl (ValueError ''too many values to unpack (expected 2)''), lg))"

definition parse_key_value_pairs ::
  "string option \<Rightarrow> (error + (string \<times> string) list) \<times> log_entry list" where
  "parse_key_value_pairs key_value_pairs_str =
     (case key_value_pairs_str of
        None \<Rightarrow> (Inr [], [])
      | Some s \<Rightarrow>
          (if s = [] then (Inr [], [])
           else parse_pairs_loop (str_split (CHR '','') s) [] []))"

section \<open>cli/bento_service.py: the build arguments of containerize\<close>

text \<open>
  \<^verbatim>\<open>
  docker_build_args = {}
  if build_arg:
      for arg in build_arg:
          key, value = arg.split("=", 1)
          docker_build_args[key] = value
  \<close>
\<close>

fun docker_build_args :: "string list \<Rightarrow> labels \<Rightarrow> error + labels" where
  "docker_build_args [] d = Inr d"
| "docker_build_args (arg # rest) d =
     (case str_split1 (CHR ''='') arg of
        [key, val] \<Rightarrow> docker_build_args rest (dict_set key val d)
      | _ \<Rightarrow> Inl (ValueError ''not enough values to unpack (expected 2, got 1)''))"

section \<open>Messages of the transport\<close>

text \<open>
  The protobuf messages are declared outside the client (\<^verbatim>\<open>bentoml.yatai.proto\<close>); the
  records hold the fields the client reads or writes. A storage type the client does
  not name is \<open>OTHER_STORAGE k\<close>, a status code it does not name \<open>OTHER_CODE k\<close>. Of
  the upload states the client names \<open>UPLOADING\<close>, \<open>DONE\<close> and \<open>ERROR\<close>;
  \<open>PENDING\<close> is the state of a bundle that was registered and not yet updated. The
  timestamp of an upload status is left out.
\<close>

datatype upload_state = PENDING | UPLOADING | DONE | ERROR

record upload_status =
  us_status :: upload_state
  us_percentage :: "int option"

record bento_uri =
  uri_type :: storage_type
  uri_uri :: string
  s3_presigned_url :: string
  gcs_presigned_url :: string

record bento_service_metadata =
  md_name :: string
  md_version :: string
  md_labels :: labels

record bento =
  pb_name :: string
  pb_version :: string
  pb_uri :: bento_uri
  pb_metadata :: bento_service_metadata
  pb_status :: upload_status

record get_bento_response =
  get_status :: status
  get_bento :: bento

record add_bento_response =
  add_status :: status
  add_uri :: bento_uri

record update_bento_request =
  upd_bento_name :: string
  upd_bento_version :: string
  upd_upload_status :: upload_status
  upd_service_metadata :: bento_service_metadata

record list_bento_request =
  list_bento_name :: "string option"
  list_offset :: "int option"
  list_limit :: "int option"
  list_order_by :: "string option"
  list_ascending_order :: "bool option"
  list_label_selectors :: labels

record list_bento_response =
  list_status :: status
  list_bentos :: "bento list"

record http_response =
  http_status_code :: int
  http_text :: string

section \<open>The collaborators of the client\<close>

text \<open>
  The client is written against a service stub (\<^verbatim>\<open>self.yatai_service\<close>), the local file
  system, the network and the terminal. None of them is part of the client, so they are
  a parameter: a record of functions over a state \<open>'w\<close> of everything outside the
  client. A remote procedure returns its response message and the new state; a
  collaborator that can raise returns the exception as a value. A transport that raises
  instead of answering, and a user who aborts the confirmation prompt, are not modelled.
\<close>

record 'w env =
  load_bento_service_metadata :: "string \<Rightarrow> 'w \<Rightarrow> error + bento_service_metadata"
  validate_labels :: "labels \<Rightarrow> error option"
  GetBento :: "string \<Rightarrow> string \<Rightarrow> 'w \<Rightarrow> get_bento_response \<times> 'w"
  AddBento :: "string \<Rightarrow> string \<Rightarrow> 'w \<Rightarrow> add_bento_response \<times> 'w"
  UpdateBento :: "update_bento_request \<Rightarrow> 'w \<Rightarrow> 'w"
  ListBento :: "list_bento_request \<Rightarrow> 'w \<Rightarrow> list_bento_response \<times> 'w"
  DangerouslyDeleteBento :: "string \<Rightarrow> string \<Rightarrow> 'w \<Rightarrow> status \<times> 'w"
  generate_gprc_labels_selector :: "string \<Rightarrow> error + labels"
  path_exists :: "string \<Rightarrow> 'w \<Rightarrow> bool"
  rmtree :: "string \<Rightarrow> 'w \<Rightarrow> error option \<times> 'w"
  copytree :: "string \<Rightarrow> string \<Rightarrow> 'w \<Rightarrow> error option \<times> 'w"
  tar_gz :: "string \<Rightarrow> string \<Rightarrow> 'w \<Rightarrow> error + string"
  requests_put :: "string \<Rightarrow> string \<Rightarrow> 'w \<Rightarrow> (error + http_response) \<times> 'w"
  safe_retrieve :: "string \<Rightarrow> string \<Rightarrow> 'w \<Rightarrow> error option \<times> 'w"
  click_confirm :: "string \<Rightarrow> 'w \<Rightarrow> bool \<times> 'w"

text \<open>
  What the client does to its collaborators is recorded in the order it does it: every
  remote procedure call, every file system operation and every HTTP request appends a
  \<open>call\<close>, every logger call a \<open>log_entry\<close>.
\<close>

datatype call =
    GetBentoCall string string
  | AddBentoCall string string
  | UpdateBentoCall update_bento_request
  | ListBentoCall list_bento_request
  | DangerouslyDeleteBentoCall string string
  | PathExistsCall string
  | RmtreeCall string
  | CopytreeCall string string
  | TarCall string string
  | PutCall string string
  | SafeRetrieveCall string string
  | ConfirmCall string

record 'w run =
  world :: 'w
  calls :: "call list"
  logs :: "log_entry list"

definition logger :: "log_entry \<Rightarrow> 'w run \<Rightarrow> 'w run" where
  "logger l s = s\<lparr>logs := logs s @ [l]\<rparr>"

definition call_GetBento ::
  "'w env \<Rightarrow> string \<Rightarrow> string \<Rightarrow> 'w run \<Rightarrow> get_bento_response \<times> 'w run" where
  "call_GetBento env n v s =
     (case GetBento env n v (world s) of
        (r, w) \<Rightarrow> (r, s\<lparr>world := w, calls := calls s @ [GetBentoCall n v]\<rparr>))"

definition call_AddBento ::
  "'w env \<Rightarrow> string \<Rightarrow> string \<Rightarrow> 'w run \<Rightarrow> add_bento_response \<times> 'w run" where
  "call_AddBento env n v s =
     (case AddBento env n v (world s) of
        (r, w) \<Rightarrow> (r, s\<lparr>world := w, calls := calls s @ [AddBentoCall n v]\<rparr>))"

definition call_UpdateBento :: "'w env \<Rightarrow> update_bento_request \<Rightarrow> 'w run \<Rightarrow> 'w run" where
  "call_UpdateBento env req s =
     s\<lparr>world := UpdateBento env req (world s), calls := calls s @ [UpdateBentoCall req]\<rparr>"

definition call_ListBento ::
  "'w env \<Rightarrow> list_bento_request \<Rightarrow> 'w run \<Rightarrow> list_bento_response \<times> 'w run" where
  "call_ListBento env req s =
     (case ListBento env req (world s) of
        (r, w) \<Rightarrow> (r, s\<lparr>world := w, calls := calls s @ [ListBentoCall req]\<rparr>))"

definition call_DangerouslyDeleteBento ::
  "'w env \<Rightarrow> string \<Rightarrow> string \<Rightarrow> 'w run \<Rightarrow> status \<times> 'w run" where
  "call_DangerouslyDeleteBento env n v s =
     (case DangerouslyDeleteBento env n v (world s) of
        (r, w) \<Rightarrow> (r, s\<lparr>world := w, calls := calls s @ [DangerouslyDeleteBentoCall n v]\<rparr>))"

definition call_path_exists :: "'w env \<Rightarrow> string \<Rightarrow> 'w run \<Rightarrow> bool \<times> 'w run" where
  "call_path_exists env p s =
     (path_exists env p (world s), s\<lparr>calls := calls s @ [PathExistsCall p]\<rparr>)"

definition call_rmtree :: "'w env \<Rightarrow> string \<Rightarrow> 'w run \<Rightarrow> error option \<times> 'w run" where
  "call_rmtree env p s =
     (case rmtree env p (world s) of
        (r, w) \<Rightarrow> (r, s\<lparr>world := w, calls := calls s @ [RmtreeCall p]\<rparr>))"

definition call_copytree ::
  "'w env \<Rightarrow> string \<Rightarrow> string \<Rightarrow> 'w run \<Rightarrow> error option \<times> 'w run" where
  "call_copytree env src dst s =
     (case copytree env src dst (world s) of
        (r, w) \<Rightarrow> (r, s\<lparr>world := w, calls := calls s @ [CopytreeCall src dst]\<rparr>))"

definition call_tar_gz ::
  "'w env \<Rightarrow> string \<Rightarrow> string \<Rightarrow> 'w run \<Rightarrow> (error + string) \<times> 'w run" where
  "call_tar_gz env p arcname s =
     (tar_gz env p arcname (world s), s\<lparr>calls := calls s @ [TarCall p arcname]\<rparr>)"

definition call_requests_put ::
  "'w env \<Rightarrow> string \<Rightarrow> string \<Rightarrow> 'w run \<Rightarrow> (error + http_response) \<times> 'w run" where
  "call_requests_put env url body s =
     (case requests_put env url body (world s) of
        (r, w) \<Rightarrow> (r, s\<lparr>world := w, calls := calls s @ [PutCall url body]\<rparr>))"

definition call_safe_retrieve ::
  "'w env \<Rightarrow> string \<Rightarrow> string \<Rightarrow> 'w run \<Rightarrow> error option \<times> 'w run" where
  "call_safe_retrieve env p target s =
     (case safe_retrieve env p target (world s) of
        (r, w) \<Rightarrow> (r, s\<lparr>world := w, calls := calls s @ [SafeRetrieveCall p target]\<rparr>))"

definition call_click_confirm :: "'w env \<Rightarrow> string \<Rightarrow> 'w run \<Rightarrow> bool \<times> 'w run" where
  "call_click_confirm env prompt s =
     (case click_confirm env prompt (world s) of
        (r, w) \<Rightarrow> (r, s\<lparr>world := w, calls := calls s @ [ConfirmCall prompt]\<rparr>))"

section \<open>yatai/client/bento_repository_api.py: BentoRepositoryAPIClient\<close>

text \<open>
  A method returns its result, or the exception it raises, beside the state it leaves:
  what was done before a \<^verbatim>\<open>raise\<close> stays done.
\<close>

subsection \<open>upload_from_dir and _update_bento_upload_progress (lines 153 to 269)\<close>

text \<open>Lines 261 to 268: the request \<^verbatim>\<open>_update_bento_upload_progress\<close> builds.\<close>

definition update_bento_req ::
  "bento_service_metadata \<Rightarrow> upload_state \<Rightarrow> int option \<Rightarrow> update_bento_request" where
  "update_bento_req bento_service_metadata st pct =
     \<lparr>upd_bento_name = md_name bento_service_metadata,
      upd_bento_version = md_version bento_service_metadata,
      upd_upload_status = \<lparr>us_status = st, us_percentage = pct\<rparr>,
      upd_service_metadata = bento_service_metadata\<rparr>"

definition update_bento_upload_progress ::
  "'w env \<Rightarrow> bento_service_metadata \<Rightarrow> upload_state \<Rightarrow> int option \<Rightarrow> 'w run \<Rightarrow> 'w run" where
  "update_bento_upload_progress env bento_service_metadata st pct s =
     call_UpdateBento env (update_bento_req bento_service_metadata st pct) s"

text \<open>Lines 197 to 212: the branch \<^verbatim>\<open>response.uri.type == BentoUri.LOCAL\<close>.\<close>

definition upload_local ::
  "'w env \<Rightarrow> string \<Rightarrow> bento_service_metadata \<Rightarrow> bento_uri \<Rightarrow> 'w run
     \<Rightarrow> (error + string) \<times> 'w run" where
  "upload_local env saved_bento_path md u s =
     (case call_path_exists env (uri_uri u) s of
        (ex, s1) \<Rightarrow>
          (case (if ex then call_rmtree env (uri_uri u) s1 else (None, s1)) of
             (Some e, s2) \<Rightarrow> (Inl e, s2)
           | (None, s2) \<Rightarrow>
               (case call_copytree env saved_bento_path (uri_uri u) s2 of
                  (Some e, s3) \<Rightarrow> (Inl e, s3)
                | (None, s3) \<Rightarrow>
                    (Inr (uri_uri u),
                     logger (InfoSavedTo (md_name md) (md_version md) (uri_uri u))
                       (update_bento_upload_progress env md DONE None s3)))))"

text \<open>Lines 213 to 251: the branch of the types S3 and GCS.\<close>

definition upload_remote ::
  "'w env \<Rightarrow> string \<Rightarrow> bento_service_metadata \<Rightarrow> bento_uri \<Rightarrow> 'w run
     \<Rightarrow> (error + string) \<times> 'w run" where
  "upload_remote env saved_bento_path md u s =
     (let uri_type_name = (if uri_type u = S3 then ''S3'' else ''GCS'');
          s1 = update_bento_upload_progress env md UPLOADING (Some 0) s
      in case call_tar_gz env saved_bento_path (md_name md) s1 of
           (Inl e, s2) \<Rightarrow> (Inl e, s2)
         | (Inr fileobj, s2) \<Rightarrow>
             (case call_requests_put env
                     (if uri_type u = S3 then s3_presigned_url u else gcs_presigned_url u)
                     fileobj s2 of
                (Inl e, s3) \<Rightarrow> (Inl e, s3)
              | (Inr http_response, s3) \<Rightarrow>
                  (if http_status_code http_response \<noteq> 200
                   then (Inl (ErrorSavingBundle uri_type_name
                                (http_status_code http_response) (http_text http_response)),
                         update_bento_upload_progress env md ERROR None s3)
                   else (Inr (uri_uri u),
                         logger (InfoSavedToRemote (md_name md) (md_version md) (uri_uri u))
                           (update_bento_upload_progress env md DONE None s3)))))"

text \<open>
  Lines 156 to 159: the metadata is read from the directory and the labels, when the
  caller gave a non-empty dictionary, are validated and merged into it.
\<close>

definition load_and_label ::
  "'w env \<Rightarrow> string \<Rightarrow> labels option \<Rightarrow> 'w run \<Rightarrow> error + bento_service_metadata" where
  "load_and_label env saved_bento_path labels s =
     (case load_bento_service_metadata env saved_bento_path (world s) of
        Inl e \<Rightarrow> Inl e
      | Inr md \<Rightarrow>
          (case labels of
             None \<Rightarrow> Inr md
           | Some l \<Rightarrow>
               (if l = [] then Inr md
                else (case validate_labels env l of
                        Some e \<Rightarrow> Inl e
                      | None \<Rightarrow> Inr (md\<lparr>md_labels := dict_update (md_labels md) l\<rparr>)))))"

definition upload_from_dir ::
  "'w env \<Rightarrow> string \<Rightarrow> labels option \<Rightarrow> 'w run \<Rightarrow> (error + string) \<times> 'w run" where
  "upload_from_dir env saved_bento_path labels s =
     (case load_and_label env saved_bento_path labels s of
        Inl e \<Rightarrow> (Inl e, s)
      | Inr md \<Rightarrow>
          (case call_GetBento env (md_name md) (md_version md) s of
             (get_bento_response, s1) \<Rightarrow>
               (if status_code (get_status get_bento_response) = OK
                then (Inl (AlreadyRegistered (md_name md) (md_version md)), s1)
                else if status_code (get_status get_bento_response) \<noteq> NOT_FOUND
                then (Inl (FailedAccessingYataiService (get_status get_bento_response)), s1)
                else
                  (case call_AddBento env (md_name md) (md_version md) s1 of
                     (response, s2) \<Rightarrow>
                       (if status_code (add_status response) \<noteq> OK
                        then (Inl (ErrorAddingBento (add_status response)), s2)
                        else if uri_type (add_uri response) = LOCAL
                        then upload_local env saved_bento_path md (add_uri response) s2
                        else if uri_type (add_uri response) = S3
                                \<or> uri_type (add_uri response) = GCS
                        then upload_remote env saved_bento_path md (add_uri response) s2
                        else (Inl (UriTypeNotSupported (uri_type (add_uri response))
                                     (uri_uri (add_uri response))), s2))))))"

subsection \<open>get and list (lines 281 to 361)\<close>

definition get :: "'w env \<Rightarrow> string \<Rightarrow> 'w run \<Rightarrow> (error + bento) \<times> 'w run" where
  "get env bento s =
     (if CHR '':'' \<notin> set bento then (Inl NameOrVersionMissing, s)
      else
        (case str_split (CHR '':'') bento of
           [name, version] \<Rightarrow>
             (case call_GetBento env name version s of
                (result, s1) \<Rightarrow>
                  (if status_code (get_status result) \<noteq> OK
                   then (Inl (BentoNotFound name version (get_status result)), s1)
                   else (Inr (get_bento result), s1)))
         | _ \<Rightarrow> (Inl (ValueError ''too many values to unpack (expected 2)''), s)))"

definition list' ::
  "'w env \<Rightarrow> string option \<Rightarrow> int option \<Rightarrow> int option \<Rightarrow> string option
     \<Rightarrow> string option \<Rightarrow> bool option \<Rightarrow> 'w run \<Rightarrow> (error + bento list) \<times> 'w run" where
  "list' env bento_name offset limit labels order_by ascending_order s =
     (case (case labels of
              None \<Rightarrow> Inr []
            | Some q \<Rightarrow> generate_gprc_labels_selector env q) of
        Inl e \<Rightarrow> (Inl e, s)
      | Inr selectors \<Rightarrow>
          (case call_ListBento env
                  \<lparr>list_bento_name = bento_name, list_offset = offset, list_limit = limit,
                   list_order_by = order_by, list_ascending_order = ascending_order,
                   list_label_selectors = selectors\<rparr> s of
             (result, s1) \<Rightarrow>
               (if status_code (list_status result) \<noteq> OK
                then (Inl (ListFailed (list_status result)), s1)
                else (Inr (list_bentos result), s1))))"

subsection \<open>_delete_bento_bundle and delete (lines 363 to 467)\<close>

definition delete_bento_bundle ::
  "'w env \<Rightarrow> string \<Rightarrow> bool \<Rightarrow> 'w run \<Rightarrow> (error + unit) \<times> 'w run" where
  "delete_bento_bundle env bento_tag require_confirm s =
     (case get env bento_tag s of
        (Inl e, s1) \<Rightarrow> (Inl e, s1)
      | (Inr bento_pb, s1) \<Rightarrow>
          (case (if require_confirm
                 then call_click_confirm env (''Permanently delete '' @ bento_tag @ ''?'') s1
                 else (True, s1)) of
             (confirmed, s2) \<Rightarrow>
               (if require_confirm \<and> \<not> confirmed then (Inr (), s2)
                else
                  (case call_DangerouslyDeleteBento env
                          (pb_name bento_pb) (pb_version bento_pb) s2 of
                     (result, s3) \<Rightarrow>
                       (if status_code result \<noteq> OK
                        then (Inr (),
                              logger (ErrorFailedToDelete
                                        (pb_name bento_pb) (pb_version bento_pb) result) s3)
                        else (Inr (),
                              logger (InfoDeleted (pb_name bento_pb) (pb_version bento_pb))
                                s3))))))"

text \<open>Lines 464 to 467: the \<^verbatim>\<open>for\<close> loop over one page.\<close>

fun delete_page ::
  "'w env \<Rightarrow> bento list \<Rightarrow> bool \<Rightarrow> 'w run \<Rightarrow> (error + unit) \<times> 'w run" where
  "delete_page env [] require_confirm s = (Inr (), s)"
| "delete_page env (bento # rest) require_confirm s =
     (case delete_bento_bundle env (pb_name bento @ '':'' @ pb_version bento)
             require_confirm s of
        (Inl e, s1) \<Rightarrow> (Inl e, s1)
      | (Inr _, s1) \<Rightarrow> delete_page env rest require_confirm s1)"

definition delete_list_limit :: int where
  "delete_list_limit = 50"

text \<open>
  Lines 451 to 467: the \<^verbatim>\<open>while offset >= 0\<close> loop. Nothing in the client bounds the
  number of rounds, so the loop is a partial function: \<open>None\<close> is a loop that never
  ends.
\<close>

partial_function (option) delete_loop ::
  "'w env \<Rightarrow> string option \<Rightarrow> string option \<Rightarrow> bool \<Rightarrow> int \<Rightarrow> 'w run
     \<Rightarrow> ((error + unit) \<times> 'w run) option" where
  "delete_loop env bento_name labels require_confirm offset s =
     (if offset \<ge> 0
      then
        (case list' env bento_name (Some offset) (Some delete_list_limit) labels None None s of
           (Inl e, s1) \<Rightarrow> Some (Inl e, s1)
         | (Inr bento_list, s1) \<Rightarrow>
             (if length bento_list = 0 then Some (Inr (), s1)
              else
                (case delete_page env bento_list require_confirm s1 of
                   (Inl e, s2) \<Rightarrow> Some (Inl e, s2)
                 | (Inr _, s2) \<Rightarrow>
                     delete_loop env bento_name labels require_confirm
                       (offset + delete_list_limit) s2)))
      else Some (Inr (), s))"

definition delete ::
  "'w env \<Rightarrow> string option \<Rightarrow> string option \<Rightarrow> string option \<Rightarrow> string option
     \<Rightarrow> bool \<Rightarrow> bool \<Rightarrow> 'w run \<Rightarrow> ((error + unit) \<times> 'w run) option" where
  "delete env bento_tag labels bento_name bento_version prune require_confirm s =
     (if bento_tag \<noteq> None \<and> bento_name \<noteq> None \<and> bento_version \<noteq> None
      then Some (Inl TooMuchArguments, s)
      else if bento_tag \<noteq> None
      then Some (delete_bento_bundle env (the bento_tag) require_confirm
                   (logger (InfoDeletingTag (the bento_tag)) s))
      else if bento_name \<noteq> None \<and> bento_tag \<noteq> None
      then Some (delete_bento_bundle env
                   (the bento_name @ '':'' @ (case bento_version of None \<Rightarrow> ''None'' | Some v \<Rightarrow> v))
                   require_confirm
                   (logger (InfoDeletingNameVersion (the bento_name) bento_version) s))
      else
        (if prune
         then delete_loop env None None require_confirm 0 (logger InfoDeletingAll s)
         else delete_loop env bento_name labels require_confirm 0
                (logger (InfoDeletingFiltered bento_name labels) s)))"

subsection \<open>download_to_directory and push (lines 65 to 101 and 271 to 279)\<close>

definition download_to_directory ::
  "'w env \<Rightarrow> bento \<Rightarrow> string \<Rightarrow> 'w run \<Rightarrow> error option \<times> 'w run" where
  "download_to_directory env bento_pb target_dir s =
     (let bento_service_bundle_path =
            (if s3_presigned_url (pb_uri bento_pb) \<noteq> []
             then s3_presigned_url (pb_uri bento_pb)
             else if gcs_presigned_url (pb_uri bento_pb) \<noteq> []
             then gcs_presigned_url (pb_uri bento_pb)
             else uri_uri (pb_uri bento_pb))
      in call_safe_retrieve env bento_service_bundle_path target_dir s)"

text \<open>
  \<^verbatim>\<open>get_yatai_client()\<close> gives the client of the local registry: \<open>local_yc\<close> is its
  collaborators, \<open>env\<close> those of the client \<^verbatim>\<open>push\<close> is called on.
\<close>

definition push ::
  "'w env \<Rightarrow> 'w env \<Rightarrow> string \<Rightarrow> bool \<Rightarrow> 'w run \<Rightarrow> (error + string) \<times> 'w run" where
  "push local_yc env bento with_labels s =
     (case get local_yc bento s of
        (Inl e, s1) \<Rightarrow> (Inl e, s1)
      | (Inr local_bento_pb, s1) \<Rightarrow>
          (let bento_bundle_path =
                 (if s3_presigned_url (pb_uri local_bento_pb) \<noteq> []
                  then s3_presigned_url (pb_uri local_bento_pb)
                  else if gcs_presigned_url (pb_uri local_bento_pb) \<noteq> []
                  then gcs_presigned_url (pb_uri local_bento_pb)
                  else uri_uri (pb_uri local_bento_pb));
               labels =
                 (if with_labels \<and> md_labels (pb_metadata local_bento_pb) \<noteq> []
                  then Some (md_labels (pb_metadata local_bento_pb))
                  else None)
           in upload_from_dir env bento_bundle_path labels s1))"

section \<open>A reference authority and its surroundings\<close>

text \<open>
  Modelled from the spec: the metadata authority behind the service stub, the local file
  system and the object store are not part of the client. The authority keeps the
  registered bundles in a list, keyed by (name, version); a bundle is created as Pending
  when it is registered; Update writes the upload status; List filters by exact name and
  by labels and cuts the page \<open>offset\<close>, \<open>limit\<close> out of the matching bundles; Get and
  DangerouslyDelete answer NotFound for an absent reference. Failures are injected per
  reference: \<open>get_faults\<close>, \<open>add_faults\<close> and \<open>delete_faults\<close> list the references
  for which the authority answers Get, Add, respectively DangerouslyDelete, with a
  failure code and does nothing.
\<close>

record outside =
  registry :: "bento list"
  storage :: "string \<Rightarrow> string \<Rightarrow> bento_uri"
  get_faults :: "(string \<times> string) list"
  add_faults :: "(string \<times> string) list"
  delete_faults :: "(string \<times> string) list"
  dirs :: "string \<Rightarrow> (bento_service_metadata \<times> string) option"
  put_reply :: "string \<Rightarrow> http_response"
  confirm_answer :: bool

definition ref_of :: "bento \<Rightarrow> string \<times> string" where
  "ref_of b = (pb_name b, pb_version b)"

definition find_bento :: "string \<Rightarrow> string \<Rightarrow> bento list \<Rightarrow> bento option" where
  "find_bento n v bs = find (\<lambda>b. ref_of b = (n, v)) bs"

definition status_ok :: status where
  "status_ok = \<lparr>status_code = OK, error_message = []\<rparr>"

definition status_not_found :: status where
  "status_not_found = \<lparr>status_code = NOT_FOUND, error_message = ''not found''\<rparr>"

definition status_internal :: status where
  "status_internal = \<lparr>status_code = OTHER_CODE 13, error_message = ''injected failure''\<rparr>"

definition status_already_exists :: status where
  "status_already_exists = \<lparr>status_code = OTHER_CODE 6, error_message = ''already exists''\<rparr>"

definition empty_uri :: bento_uri where
  "empty_uri = \<lparr>uri_type = OTHER_STORAGE 0, uri_uri = [], s3_presigned_url = [],
                 gcs_presigned_url = []\<rparr>"

definition empty_bento :: bento where
  "empty_bento =
     \<lparr>pb_name = [], pb_version = [], pb_uri = empty_uri,
      pb_metadata = \<lparr>md_name = [], md_version = [], md_labels = []\<rparr>,
      pb_status = \<lparr>us_status = PENDING, us_percentage = None\<rparr>\<rparr>"

text \<open>Modelled from the spec: Get of the authority. An injected failure answers with a failure code; an absent reference with NotFound; else OK and the bundle.\<close>

definition ref_GetBento :: "string \<Rightarrow> string \<Rightarrow> outside \<Rightarrow> get_bento_response \<times> outside" where
  "ref_GetBento n v w =
     (if (n, v) \<in> set (get_faults w)
      then (\<lparr>get_status = status_internal, get_bento = empty_bento\<rparr>, w)
      else (case find_bento n v (registry w) of
              None \<Rightarrow> (\<lparr>get_status = status_not_found, get_bento = empty_bento\<rparr>, w)
            | Some b \<Rightarrow> (\<lparr>get_status = status_ok, get_bento = b\<rparr>, w)))"

text \<open>Modelled from the spec: Add of the authority. An injected failure answers with a failure code and registers nothing; a reference is registered once; the new bundle is Pending and gets the location the authority assigns.\<close>

definition ref_AddBento :: "string \<Rightarrow> string \<Rightarrow> outside \<Rightarrow> add_bento_response \<times> outside" where
  "ref_AddBento n v w =
     (if (n, v) \<in> set (add_faults w)
      then (\<lparr>add_status = status_internal, add_uri = empty_uri\<rparr>, w)
      else
        (case find_bento n v (registry w) of
           Some b \<Rightarrow> (\<lparr>add_status = status_already_exists, add_uri = empty_uri\<rparr>, w)
         | None \<Rightarrow>
             (\<lparr>add_status = status_ok, add_uri = storage w n v\<rparr>,
              w\<lparr>registry := registry w @
                   [\<lparr>pb_name = n, pb_version = v, pb_uri = storage w n v,
                     pb_metadata = \<lparr>md_name = n, md_version = v, md_labels = []\<rparr>,
                     pb_status = \<lparr>us_status = PENDING, us_percentage = None\<rparr>\<rparr>]\<rparr>)))"

text \<open>Modelled from the spec: Update of the authority writes the upload status and the metadata of the reference.\<close>

definition ref_UpdateBento :: "update_bento_request \<Rightarrow> outside \<Rightarrow> outside" where
  "ref_UpdateBento req w =
     w\<lparr>registry :=
         map (\<lambda>b. if ref_of b = (upd_bento_name req, upd_bento_version req)
                   then b\<lparr>pb_status := upd_upload_status req,
                          pb_metadata := upd_service_metadata req\<rparr>
                   else b)
           (registry w)\<rparr>"

text \<open>Modelled from the spec: the filter of List, by exact name and by labels.\<close>

definition matches :: "list_bento_request \<Rightarrow> bento \<Rightarrow> bool" where
  "matches req b =
     ((case list_bento_name req of None \<Rightarrow> True | Some n \<Rightarrow> pb_name b = n)
      \<and> list_all (\<lambda>kv. map_of (md_labels (pb_metadata b)) (fst kv) = Some (snd kv))
            (list_label_selectors req))"

text \<open>Modelled from the spec: the page of List, \<open>limit\<close> bundles from position \<open>offset\<close> of the matching ones.\<close>

definition page_of :: "list_bento_request \<Rightarrow> bento list \<Rightarrow> bento list" where
  "page_of req bs =
     (case list_limit req of None \<Rightarrow> (\<lambda>xs. xs) | Some l \<Rightarrow> take (nat l))
       ((case list_offset req of None \<Rightarrow> (\<lambda>xs. xs) | Some k \<Rightarrow> drop (nat k))
          (filter (matches req) bs))"

text \<open>Modelled from the spec: List of the authority always answers OK, an empty page included.\<close>

definition ref_ListBento :: "list_bento_request \<Rightarrow> outside \<Rightarrow> list_bento_response \<times> outside" where
  "ref_ListBento req w =
     (\<lparr>list_status = status_ok, list_bentos = page_of req (registry w)\<rparr>, w)"

text \<open>Modelled from the spec: DangerouslyDelete of the authority. An injected failure answers with a failure code and removes nothing; an absent reference answers NotFound.\<close>

definition ref_DangerouslyDeleteBento :: "string \<Rightarrow> string \<Rightarrow> outside \<Rightarrow> status \<times> outside" where
  "ref_DangerouslyDeleteBento n v w =
     (if (n, v) \<in> set (delete_faults w) then (status_internal, w)
      else (case find_bento n v (registry w) of
              None \<Rightarrow> (status_not_found, w)
            | Some b \<Rightarrow>
                (status_ok, w\<lparr>registry := filter (\<lambda>b. ref_of b \<noteq> (n, v)) (registry w)\<rparr>)))"

text \<open>Modelled from the spec: the local file system maps a path to a saved bundle, its metadata and its payload; reading, removing and copying fail on a missing path, copying also on an existing destination.\<close>

definition ref_load_metadata :: "string \<Rightarrow> outside \<Rightarrow> error + bento_service_metadata" where
  "ref_load_metadata p w =
     (case dirs w p of
        None \<Rightarrow> Inl (External ''FileNotFoundError'')
      | Some d \<Rightarrow> Inr (fst d))"

definition ref_rmtree :: "string \<Rightarrow> outside \<Rightarrow> error option \<times> outside" where
  "ref_rmtree p w =
     (if dirs w p = None then (Some (External ''FileNotFoundError''), w)
      else (None, w\<lparr>dirs := (dirs w)(p := None)\<rparr>))"

definition ref_copytree :: "string \<Rightarrow> string \<Rightarrow> outside \<Rightarrow> error option \<times> outside" where
  "ref_copytree src dst w =
     (case dirs w src of
        None \<Rightarrow> (Some (External ''FileNotFoundError''), w)
      | Some d \<Rightarrow>
          (if dirs w dst \<noteq> None then (Some (External ''FileExistsError''), w)
           else (None, w\<lparr>dirs := (dirs w)(dst \<mapsto> d)\<rparr>)))"

definition ref_tar_gz :: "string \<Rightarrow> string \<Rightarrow> outside \<Rightarrow> error + string" where
  "ref_tar_gz p arcname w =
     (case dirs w p of
        None \<Rightarrow> Inl (External ''FileNotFoundError'')
      | Some d \<Rightarrow> Inr (arcname @ ''/'' @ snd d))"

text \<open>Modelled from the spec: the collaborators of a client bound to the reference authority. The object store answers a PUT as \<open>put_reply\<close> says, every label set is valid, and a label query is read as key=value pairs.\<close>

definition reference_env :: "outside env" where
  "reference_env =
     \<lparr>load_bento_service_metadata = ref_load_metadata,
      validate_labels = (\<lambda>l. None),
      GetBento = ref_GetBento,
      AddBento = ref_AddBento,
      UpdateBento = ref_UpdateBento,
      ListBento = ref_ListBento,
      DangerouslyDeleteBento = ref_DangerouslyDeleteBento,
      generate_gprc_labels_selector = (\<lambda>q. fst (parse_key_value_pairs (Some q))),
      path_exists = (\<lambda>p w. dirs w p \<noteq> None),
      rmtree = ref_rmtree,
      copytree = ref_copytree,
      tar_gz = ref_tar_gz,
      requests_put = (\<lambda>url body w. (Inr (put_reply w url), w)),
      safe_retrieve = ref_copytree,
      click_confirm = (\<lambda>prompt w. (confirm_answer w, w))\<rparr>"

text \<open>The state a run starts in: nothing called, nothing logged.\<close>

definition start :: "'w \<Rightarrow> 'w run" where
  "start w = \<lparr>world = w, calls = [], logs = []\<rparr>"

section \<open>Observations and example registries\<close>

text \<open>
  The request of one round of the bulk delete loop (lines 453 to 458), the List requests
  among the calls of a run, and what a run left at the reference authority.
\<close>

definition page_request :: "string option \<Rightarrow> labels \<Rightarrow> int \<Rightarrow> list_bento_request" where
  "page_request bento_name selectors offset =
     \<lparr>list_bento_name = bento_name, list_offset = Some offset,
      list_limit = Some delete_list_limit, list_order_by = None,
      list_ascending_order = None, list_label_selectors = selectors\<rparr>"

fun list_requests :: "call list \<Rightarrow> list_bento_request list" where
  "list_requests [] = []"
| "list_requests (ListBentoCall r # cs) = r # list_requests cs"
| "list_requests (c # cs) = list_requests cs"

fun update_requests :: "call list \<Rightarrow> update_bento_request list" where
  "update_requests [] = []"
| "update_requests (UpdateBentoCall r # cs) = r # update_requests cs"
| "update_requests (c # cs) = update_requests cs"

definition no_colon :: "bento \<Rightarrow> bool" where
  "no_colon b = (CHR '':'' \<notin> set (pb_name b) \<and> CHR '':'' \<notin> set (pb_version b))"

definition status_at :: "string \<Rightarrow> string \<Rightarrow> outside \<Rightarrow> upload_state option" where
  "status_at n v w = map_option (\<lambda>b. us_status (pb_status b)) (find_bento n v (registry w))"

definition result_of :: "('r \<times> 'w run) option \<Rightarrow> 'r option" where
  "result_of x = map_option fst x"

definition registry_after :: "('r \<times> outside run) option \<Rightarrow> bento list option" where
  "registry_after x = map_option (\<lambda>rs. registry (world (snd rs))) x"

definition calls_after :: "('r \<times> 'w run) option \<Rightarrow> call list option" where
  "calls_after x = map_option (\<lambda>rs. calls (snd rs)) x"

definition local_storage :: "string \<Rightarrow> string \<Rightarrow> bento_uri" where
  "local_storage n v =
     \<lparr>uri_type = LOCAL, uri_uri = ''/repo/'' @ n @ ''/'' @ v,
      s3_presigned_url = [], gcs_presigned_url = []\<rparr>"

definition s3_storage :: "string \<Rightarrow> string \<Rightarrow> bento_uri" where
  "s3_storage n v =
     \<lparr>uri_type = S3, uri_uri = ''s3://bucket/'' @ n @ ''/'' @ v,
      s3_presigned_url = ''https://s3.example/put/'' @ n @ ''/'' @ v, gcs_presigned_url = []\<rparr>"

definition azure_storage :: "string \<Rightarrow> string \<Rightarrow> bento_uri" where
  "azure_storage n v =
     \<lparr>uri_type = OTHER_STORAGE 4, uri_uri = ''azure://container/'' @ n @ ''/'' @ v,
      s3_presigned_url = [], gcs_presigned_url = []\<rparr>"

definition registered :: "string \<Rightarrow> string \<Rightarrow> upload_state \<Rightarrow> bento" where
  "registered n v st =
     \<lparr>pb_name = n, pb_version = v, pb_uri = local_storage n v,
      pb_metadata = \<lparr>md_name = n, md_version = v, md_labels = []\<rparr>,
      pb_status = \<lparr>us_status = st, us_percentage = None\<rparr>\<rparr>"

definition demo_metadata :: bento_service_metadata where
  "demo_metadata = \<lparr>md_name = ''demo'', md_version = ''1.0.0'', md_labels = []\<rparr>"

text \<open>
  A site: the authority holds the given bundles and stores locally, nothing fails, the
  user confirms, and the directory \<^verbatim>\<open>/tmp/bundle\<close> holds the saved bundle demo:1.0.0.
\<close>

definition site :: "bento list \<Rightarrow> outside" where
  "site bs =
     \<lparr>registry = bs, storage = local_storage, get_faults = [], add_faults = [],
      delete_faults = [],
      dirs = (\<lambda>p. if p = ''/tmp/bundle'' then Some (demo_metadata, ''model.pkl'') else None),
      put_reply = (\<lambda>url. \<lparr>http_status_code = 200, http_text = []\<rparr>),
      confirm_answer = True\<rparr>"

definition numbered :: "nat \<Rightarrow> bento list" where
  "numbered n = map (\<lambda>i. registered ''svc'' (replicate (Suc i) (CHR ''v'')) DONE) [0..<n]"

definition s3_site :: "int \<Rightarrow> string \<Rightarrow> outside" where
  "s3_site code body =
     (site [])\<lparr>storage := s3_storage,
               put_reply := (\<lambda>url. \<lparr>http_status_code = code, http_text = body\<rparr>)\<rparr>"

definition stale_site :: outside where
  "stale_site =
     (site [])\<lparr>dirs := (\<lambda>p. if p = ''/tmp/bundle'' then Some (demo_metadata, ''model.pkl'')
                          else if p = ''/repo/demo/1.0.0''
                          then Some (demo_metadata\<lparr>md_labels := [(''old'', ''yes'')]\<rparr>, ''stale.pkl'')
                          else None)\<rparr>"

definition gcs_bento :: bento where
  "gcs_bento =
     (registered ''demo'' ''1.0.0'' DONE)
       \<lparr>pb_uri := \<lparr>uri_type = GCS, uri_uri = ''gs://bucket/demo/1.0.0'',
                    s3_presigned_url = [],
                    gcs_presigned_url = ''https://gcs.example/get/demo/1.0.0''\<rparr>\<rparr>"

definition s3_bento :: bento where
  "s3_bento = (registered ''demo'' ''1.0.0'' DONE)\<lparr>pb_uri := s3_storage ''demo'' ''1.0.0''\<rparr>"

section \<open>Properties of parse_key_value_pairs\<close>

lemma str_split_not_Nil: "str_split sep s \<noteq> []"
  by (induction s) (auto split: list.splits)

lemma length_str_split: "length (str_split sep s) = Suc (count_list s sep)"
  by (induction s) (auto split: list.splits simp: str_split_not_Nil)

text \<open>
  C5, evaluated at the token \<^verbatim>\<open>a=b=c\<close>, whose value contains the separator: the
  tuple assignment of line 93 receives three pieces and raises; no dictionary is
  returned. A token with exactly one separator parses, and a repeated key keeps the last
  value (with a warning).
\<close>

theorem parse_key_value_pairs_value_with_eq:
  "parse_key_value_pairs (Some ''a=b=c'')
     = (Inl (ValueError ''too many values to unpack (expected 2)''), [])
   \<and> parse_key_value_pairs (Some ''a=1,b=2,a=3'')
     = (Inr [(''a'', ''3''), (''b'', ''2'')], [WarnDuplicatedKey ''a''])"
  by (simp add: parse_key_value_pairs_def str_strip_def is_space_def Let_def)

section \<open>The reference authority under the client\<close>

lemma str_split_no_sep: "sep \<notin> set s \<Longrightarrow> str_split sep s = [s]"
  by (induction s) auto

lemma str_split_append: "sep \<notin> set a \<Longrightarrow> str_split sep (a @ sep # b) = a # str_split sep b"
  by (induction a) auto

lemma str_split_tag:
  "CHR '':'' \<notin> set n \<Longrightarrow> CHR '':'' \<notin> set v \<Longrightarrow> str_split (CHR '':'') (n @ CHR '':'' # v) = [n, v]"
  by (simp add: str_split_append str_split_no_sep)

lemma find_bento_Some: "find_bento n v bs = Some b \<Longrightarrow> pb_name b = n \<and> pb_version b = v \<and> b \<in> set bs"
  by (auto simp: find_bento_def ref_of_def find_Some_iff)

lemma find_bento_None: "find_bento n v bs = None \<longleftrightarrow> (n, v) \<notin> ref_of ` set bs"
  by (force simp: find_bento_def find_None_iff)

lemma reference_env_sel [simp]:
  "GetBento reference_env = ref_GetBento"
  "AddBento reference_env = ref_AddBento"
  "UpdateBento reference_env = ref_UpdateBento"
  "ListBento reference_env = ref_ListBento"
  "DangerouslyDeleteBento reference_env = ref_DangerouslyDeleteBento"
  "load_bento_service_metadata reference_env = ref_load_metadata"
  "validate_labels reference_env = (\<lambda>l. None)"
  "generate_gprc_labels_selector reference_env = (\<lambda>q. fst (parse_key_value_pairs (Some q)))"
  "path_exists reference_env = (\<lambda>p w. dirs w p \<noteq> None)"
  "rmtree reference_env = ref_rmtree"
  "copytree reference_env = ref_copytree"
  "tar_gz reference_env = ref_tar_gz"
  "requests_put reference_env = (\<lambda>url body w. (Inr (put_reply w url), w))"
  "safe_retrieve reference_env = ref_copytree"
  "click_confirm reference_env = (\<lambda>prompt w. (confirm_answer w, w))"
  by (simp_all add: reference_env_def)

lemma get_reference:
  assumes "CHR '':'' \<notin> set n" "CHR '':'' \<notin> set v"
  shows "get reference_env (n @ CHR '':'' # v) s =
    (if (n, v) \<in> set (get_faults (world s))
     then (Inl (BentoNotFound n v status_internal), s\<lparr>calls := calls s @ [GetBentoCall n v]\<rparr>)
     else case find_bento n v (registry (world s)) of
        None \<Rightarrow> (Inl (BentoNotFound n v status_not_found), s\<lparr>calls := calls s @ [GetBentoCall n v]\<rparr>)
      | Some b \<Rightarrow> (Inr b, s\<lparr>calls := calls s @ [GetBentoCall n v]\<rparr>))"
  using assms
  by (simp add: get_def str_split_tag call_GetBento_def ref_GetBento_def
      status_internal_def status_not_found_def status_ok_def split: option.splits)

lemma delete_bento_bundle_reference:
  assumes "CHR '':'' \<notin> set n" "CHR '':'' \<notin> set v"
    and "(n, v) \<notin> set (get_faults (world s))"
    and "(n, v) \<in> ref_of ` set (registry (world s))"
    and "require_confirm \<longrightarrow> confirm_answer (world s)"
  shows "\<exists>s'. delete_bento_bundle reference_env (n @ '':'' @ v) require_confirm s = (Inr (), s')
     \<and> world s' = (world s)\<lparr>registry :=
          filter (\<lambda>b. ref_of b \<noteq> (n, v) \<or> (n, v) \<in> set (delete_faults (world s))) (registry (world s))\<rparr>"
proof -
  obtain b where b: "find_bento n v (registry (world s)) = Some b"
    using assms(4) find_bento_None[of n v "registry (world s)"] by (cases "find_bento n v (registry (world s))") auto
  have nv: "pb_name b = n" "pb_version b = v" using find_bento_Some[OF b] by auto
  have g: "get reference_env (n @ CHR '':'' # v) s = (Inr b, s\<lparr>calls := calls s @ [GetBentoCall n v]\<rparr>)"
    using get_reference[OF assms(1,2), of s] assms(3) b by simp
  show ?thesis
    using assms(5) b
    by (cases require_confirm)
       (auto simp add: delete_bento_bundle_def g nv call_click_confirm_def
        call_DangerouslyDeleteBento_def ref_DangerouslyDeleteBento_def logger_def
        status_internal_def status_ok_def)
qed

lemma list_requests_append: "list_requests (xs @ ys) = list_requests xs @ list_requests ys"
  by (induction xs rule: list_requests.induct) auto

lemma get_list_requests:
  "list_requests (calls (snd (get env t s))) = list_requests (calls s)"
  by (auto simp: get_def call_GetBento_def list_requests_append split: list.splits prod.splits)

lemma delete_bento_bundle_list_requests:
  "list_requests (calls (snd (delete_bento_bundle env t rc s))) = list_requests (calls s)"
proof -
  have g: "list_requests (calls (snd (get env t s))) = list_requests (calls s)" by (rule get_list_requests)
  show ?thesis
    using g
    by (auto simp: delete_bento_bundle_def call_click_confirm_def call_DangerouslyDeleteBento_def
        logger_def list_requests_append split: prod.splits sum.splits if_splits)
qed

lemma delete_page_list_requests:
  "list_requests (calls (snd (delete_page env pg rc s))) = list_requests (calls s)"
proof (induction pg arbitrary: s)
  case Nil
  then show ?case by simp
next
  case (Cons b pg)
  show ?case
    using delete_bento_bundle_list_requests[of env "pb_name b @ '':'' @ pb_version b" rc s] Cons.IH
    by (auto split: prod.splits sum.splits)
qed

lemma filter_after_head:
  "filter (\<lambda>x. f x \<notin> set (map f pg) \<or> f x \<in> F) (filter (\<lambda>x. f x \<noteq> f b \<or> f b \<in> F) R)
     = filter (\<lambda>x. f x \<notin> set (map f (b # pg)) \<or> f x \<in> F) R"
  by (induction R) auto

lemma delete_page_reference:
  assumes "distinct (map ref_of pg)"
    and "set pg \<subseteq> set (registry (world s))"
    and "\<forall>b\<in>set pg. no_colon b"
    and "\<forall>b\<in>set pg. ref_of b \<notin> set (get_faults (world s))"
    and "require_confirm \<longrightarrow> confirm_answer (world s)"
  shows "\<exists>s'. delete_page reference_env pg require_confirm s = (Inr (), s')
     \<and> world s' = (world s)\<lparr>registry :=
          filter (\<lambda>b. ref_of b \<notin> set (map ref_of pg) \<or> ref_of b \<in> set (delete_faults (world s)))
            (registry (world s))\<rparr>"
  using assms
proof (induction pg arbitrary: s)
  case Nil
  then show ?case by simp
next
  case (Cons b pg)
  let ?n = "pb_name b" and ?v = "pb_version b"
  have nc: "CHR '':'' \<notin> set ?n" "CHR '':'' \<notin> set ?v"
    using Cons.prems(3) by (auto simp: no_colon_def)
  have nf: "(?n, ?v) \<notin> set (get_faults (world s))"
    using Cons.prems(4) by (auto simp: ref_of_def)
  have inr: "(?n, ?v) \<in> ref_of ` set (registry (world s))"
    using Cons.prems(2) by (auto simp: ref_of_def image_iff)
  obtain s1 where s1: "delete_bento_bundle reference_env (?n @ '':'' @ ?v) require_confirm s = (Inr (), s1)"
    and w1: "world s1 = (world s)\<lparr>registry :=
          filter (\<lambda>x. ref_of x \<noteq> (?n, ?v) \<or> (?n, ?v) \<in> set (delete_faults (world s))) (registry (world s))\<rparr>"
    using delete_bento_bundle_reference[OF nc nf inr Cons.prems(5)] by blast
  have d: "distinct (map ref_of pg)" using Cons.prems(1) by simp
  have notin: "ref_of b \<notin> ref_of ` set pg" using Cons.prems(1) by simp
  have sub: "set pg \<subseteq> set (registry (world s1))"
    using Cons.prems(2) notin by (force simp: w1 ref_of_def image_iff)
  have p3: "\<forall>b\<in>set pg. no_colon b" using Cons.prems(3) by simp
  have p4: "\<forall>b\<in>set pg. ref_of b \<notin> set (get_faults (world s1))" using Cons.prems(4) by (simp add: w1)
  have p5: "require_confirm \<longrightarrow> confirm_answer (world s1)" using Cons.prems(5) by (simp add: w1)
  obtain s' where s': "delete_page reference_env pg require_confirm s1 = (Inr (), s')"
    and w': "world s' = (world s1)\<lparr>registry :=
          filter (\<lambda>b. ref_of b \<notin> set (map ref_of pg) \<or> ref_of b \<in> set (delete_faults (world s1)))
            (registry (world s1))\<rparr>"
    using Cons.IH[OF d sub p3 p4 p5] by blast
  have "delete_page reference_env (b # pg) require_confirm s = (Inr (), s')"
    using s1 s' by simp
  moreover have "world s' = (world s)\<lparr>registry :=
          filter (\<lambda>x. ref_of x \<notin> set (map ref_of (b # pg)) \<or> ref_of x \<in> set (delete_faults (world s)))
            (registry (world s))\<rparr>"
    unfolding w' w1
    using filter_after_head[of ref_of pg "set (delete_faults (world s))" b "registry (world s)"]
    by (simp add: ref_of_def)
  ultimately show ?case by blast
qed

lemma matches_page_request: "matches (page_request name sel off) = matches (page_request name sel 0)"
  by (rule ext) (simp add: matches_def page_request_def)

lemma page_of_page_request:
  "0 \<le> off \<Longrightarrow> page_of (page_request name sel off) R
     = take 50 (drop (nat off) (filter (matches (page_request name sel 0)) R))"
  using matches_page_request[of name sel off]
  by (simp add: page_of_def page_request_def delete_list_limit_def)

lemma list_reference:
  assumes "(case labels of None \<Rightarrow> Inr [] | Some q \<Rightarrow> fst (parse_key_value_pairs (Some q))) = Inr sel"
  shows "list' reference_env name (Some off) (Some delete_list_limit) labels None None s
     = (Inr (page_of (page_request name sel off) (registry (world s))),
        s\<lparr>calls := calls s @ [ListBentoCall (page_request name sel off)]\<rparr>)"
  using assms
  by (cases labels)
     (simp_all add: list'_def call_ListBento_def ref_ListBento_def status_ok_def page_request_def)

lemma list_reference_fail:
  assumes "(case labels of None \<Rightarrow> Inr [] | Some q \<Rightarrow> fst (parse_key_value_pairs (Some q))) = Inl e"
  shows "list' reference_env name off lim labels None None s = (Inl e, s)"
  using assms by (cases labels) (simp_all add: list'_def)

lemma get_reference_registry:
  "registry (world (snd (get reference_env t s))) = registry (world s)"
  by (auto simp: get_def call_GetBento_def ref_GetBento_def split: list.splits option.splits)

lemma delete_bento_bundle_shrinks:
  "\<exists>P. registry (world (snd (delete_bento_bundle reference_env t rc s)))
         = filter P (registry (world s))"
proof -
  obtain r s1 where g: "get reference_env t s = (r, s1)" by fastforce
  have r1: "registry (world s1) = registry (world s)"
    using get_reference_registry[of t s] g by simp
  have "registry (world (snd (delete_bento_bundle reference_env t rc s))) = registry (world s)
      \<or> (\<exists>n v. registry (world (snd (delete_bento_bundle reference_env t rc s)))
             = filter (\<lambda>b. ref_of b \<noteq> (n, v)) (registry (world s)))"
    using r1
    by (auto simp: delete_bento_bundle_def g call_click_confirm_def call_DangerouslyDeleteBento_def
        ref_DangerouslyDeleteBento_def logger_def split: sum.splits option.splits)
  then show ?thesis
  proof
    assume "registry (world (snd (delete_bento_bundle reference_env t rc s))) = registry (world s)"
    then have "registry (world (snd (delete_bento_bundle reference_env t rc s)))
       = filter (\<lambda>b. True) (registry (world s))" by simp
    then show ?thesis by blast
  next
    assume "\<exists>n v. registry (world (snd (delete_bento_bundle reference_env t rc s)))
             = filter (\<lambda>b. ref_of b \<noteq> (n, v)) (registry (world s))"
    then show ?thesis by blast
  qed
qed

lemma delete_page_shrinks:
  "\<exists>P. registry (world (snd (delete_page reference_env pg rc s))) = filter P (registry (world s))"
proof (induction pg arbitrary: s)
  case Nil
  have "registry (world s) = filter (\<lambda>b. True) (registry (world s))" by simp
  then show ?case by (simp del: filter_True) blast
next
  case (Cons b pg)
  let ?t = "pb_name b @ '':'' @ pb_version b"
  obtain r s1 where d: "delete_bento_bundle reference_env ?t rc s = (r, s1)" by fastforce
  obtain P where P: "registry (world s1) = filter P (registry (world s))"
    using delete_bento_bundle_shrinks[of ?t rc s] d by auto
  show ?case
  proof (cases r)
    case (Inl e)
    then show ?thesis using d P by auto
  next
    case (Inr u)
    obtain Q where Q: "registry (world (snd (delete_page reference_env pg rc s1))) = filter Q (registry (world s1))"
      using Cons.IH by blast
    have "registry (world (snd (delete_page reference_env (b # pg) rc s)))
        = filter (\<lambda>x. P x \<and> Q x) (registry (world s))"
      using d Inr Q P by simp
    then show ?thesis by blast
  qed
qed

lemma length_filter_filter_le:
  "length (filter Q (filter P R)) \<le> length (filter Q R)"
  by (induction R) auto

lemma delete_loop_reference_terminates_aux:
  assumes sel: "(case labels of None \<Rightarrow> Inr [] | Some q \<Rightarrow> fst (parse_key_value_pairs (Some q))) = Inr sel"
    and "0 \<le> off"
  shows "delete_loop reference_env name labels rc off s \<noteq> None"
  using assms(2)
proof (induction "length (filter (matches (page_request name sel 0)) (registry (world s))) - nat off"
    arbitrary: off s rule: less_induct)
  case less
  let ?M = "\<lambda>R. filter (matches (page_request name sel 0)) R"
  let ?R = "registry (world s)"
  let ?s1 = "s\<lparr>calls := calls s @ [ListBentoCall (page_request name sel off)]\<rparr>"
  let ?pg = "page_of (page_request name sel off) ?R"
  have l: "list' reference_env name (Some off) (Some delete_list_limit) labels None None s = (Inr ?pg, ?s1)"
    by (rule list_reference[OF sel])
  show ?case
  proof (cases "?pg = []")
    case True
    then show ?thesis
      using less.prems by (subst delete_loop.simps) (simp add: l)
  next
    case False
    obtain r s2 where dp: "delete_page reference_env ?pg rc ?s1 = (r, s2)" by fastforce
    show ?thesis
    proof (cases r)
      case (Inl e)
      then show ?thesis using less.prems False dp by (subst delete_loop.simps) (simp add: l)
    next
      case (Inr u)
      obtain P where P: "registry (world s2) = filter P ?R"
        using delete_page_shrinks[of ?pg rc ?s1] dp by auto
      have lt: "nat off < length (?M ?R)"
        using False less.prems by (simp add: page_of_page_request)
      have le: "length (?M (registry (world s2))) \<le> length (?M ?R)"
        unfolding P by (rule length_filter_filter_le)
      have dec: "length (?M (registry (world s2))) - nat (off + delete_list_limit)
                   < length (?M ?R) - nat off"
        using lt le less.prems by (simp add: delete_list_limit_def nat_add_distrib)
      have pos: "0 \<le> off + delete_list_limit" using less.prems by (simp add: delete_list_limit_def)
      have "delete_loop reference_env name labels rc (off + delete_list_limit) s2 \<noteq> None"
        using less.hyps[OF dec pos] .
      then show ?thesis
        using less.prems False dp Inr by (subst delete_loop.simps) (simp add: l)
    qed
  qed
qed

lemma delete_loop_reference_terminates:
  "delete_loop reference_env name labels rc off s \<noteq> None"
proof (cases "0 \<le> off")
  case False
  then show ?thesis by (subst delete_loop.simps) simp
next
  case True
  show ?thesis
  proof (cases "case labels of None \<Rightarrow> Inr [] | Some q \<Rightarrow> fst (parse_key_value_pairs (Some q))")
    case (Inl e)
    then show ?thesis
      using True by (subst delete_loop.simps) (simp add: list_reference_fail)
  next
    case (Inr sel)
    then show ?thesis using delete_loop_reference_terminates_aux[OF _ True] by blast
  qed
qed

lemma delete_reference_terminates:
  "delete reference_env bento_tag labels bento_name bento_version prune rc s \<noteq> None"
  by (simp add: delete_def delete_loop_reference_terminates del: not_None_eq)

lemma matches_all [simp]: "matches (page_request None [] off) = (\<lambda>b. True)"
  by (rule ext) (simp add: matches_def page_request_def)

lemma matches_name [simp]: "matches (page_request (Some n) [] off) = (\<lambda>b. pb_name b = n)"
  by (rule ext) (simp add: matches_def page_request_def)

lemma page_of_all:
  "0 \<le> off \<Longrightarrow> page_of (page_request None [] off) R = take 50 (drop (nat off) R)"
  by (simp add: page_of_page_request)

lemma list_reference_all:
  "list' reference_env None (Some off) (Some delete_list_limit) None None None s
     = (Inr (page_of (page_request None [] off) (registry (world s))),
        s\<lparr>calls := calls s @ [ListBentoCall (page_request None [] off)]\<rparr>)"
  by (rule list_reference) simp

lemma filter_notin_take:
  "distinct (map f R) \<Longrightarrow> filter (\<lambda>x. f x \<notin> set (map f (take k R))) R = drop k R"
proof (induction R arbitrary: k)
  case Nil
  then show ?case by simp
next
  case (Cons a R)
  show ?case
  proof (cases k)
    case 0
    then show ?thesis by simp
  next
    case (Suc j)
    have "filter (\<lambda>x. f x \<noteq> f a \<and> f x \<notin> f ` set (take j R)) R
        = filter (\<lambda>x. f x \<notin> set (map f (take j R))) R"
      using Cons.prems by (intro filter_cong) (force simp: image_iff)+
    then show ?thesis using Cons Suc by simp
  qed
qed

lemma bulk_delete_two_pages:
  assumes d: "distinct (map ref_of (registry (world s)))"
    and nc: "\<forall>b\<in>set (registry (world s)). no_colon b"
    and gf: "get_faults (world s) = []" and df: "delete_faults (world s) = []"
    and cf: "require_confirm \<longrightarrow> confirm_answer (world s)"
    and len: "50 < length (registry (world s))" "length (registry (world s)) \<le> 100"
  shows "\<exists>s'. delete_loop reference_env None None require_confirm 0 s = Some (Inr (), s')
     \<and> registry (world s') = drop 50 (registry (world s))"
proof -
  let ?R = "registry (world s)"
  let ?s1 = "s\<lparr>calls := calls s @ [ListBentoCall (page_request None [] 0)]\<rparr>"
  have pg: "page_of (page_request None [] 0) ?R = take 50 ?R"
    by (simp add: page_of_all)
  have ne: "take 50 ?R \<noteq> []" using len by auto
  have d1: "distinct (map ref_of (take 50 ?R))"
    using d by (simp add: distinct_take take_map[symmetric])
  have sub: "set (take 50 ?R) \<subseteq> set (registry (world ?s1))"
    by (auto dest: in_set_takeD)
  obtain s2 where dp: "delete_page reference_env (take 50 ?R) require_confirm ?s1 = (Inr (), s2)"
    and w2: "world s2 = (world ?s1)\<lparr>registry :=
          filter (\<lambda>b. ref_of b \<notin> set (map ref_of (take 50 ?R)) \<or> ref_of b \<in> set (delete_faults (world ?s1)))
            (registry (world ?s1))\<rparr>"
    using delete_page_reference[OF d1 sub, of require_confirm] nc gf cf
    by (auto dest: in_set_takeD)
  have r2: "registry (world s2) = drop 50 ?R"
    unfolding w2 using filter_notin_take[OF d, of 50] by (simp add: df)
  have pg2: "page_of (page_request None [] 50) (registry (world s2)) = []"
    using len by (simp add: page_of_all r2)
  have second: "delete_loop reference_env None None require_confirm 50 s2
      = Some (Inr (), s2\<lparr>calls := calls s2 @ [ListBentoCall (page_request None [] 50)]\<rparr>)"
    by (subst delete_loop.simps) (simp add: list_reference_all pg2)
  have "delete_loop reference_env None None require_confirm 0 s
      = delete_loop reference_env None None require_confirm delete_list_limit s2"
    using ne len by (subst delete_loop.simps) (simp add: list_reference_all pg dp)
  then have first: "delete_loop reference_env None None require_confirm 0 s
      = delete_loop reference_env None None require_confirm 50 s2"
    by (simp add: delete_list_limit_def)
  show ?thesis using first second r2 by simp
qed

lemma map_upt_Suc_shift: "map f [0..<Suc n] = f 0 # map (\<lambda>i. f (Suc i)) [0..<n]"
  by (simp only: map_upt_Suc)

lemma pages_step:
  "off < N \<Longrightarrow> (N - off + 49) div 50 = Suc ((N - (off + 50) + 49) div 50)" for off N :: nat
  by (cases "off + 50 \<le> N") (simp_all add: div_eq_0_iff)

lemma pages_last: "N \<le> off \<Longrightarrow> (N - off + 49) div 50 = 0" for off N :: nat
  by simp

lemma bulk_delete_all_failing:
  assumes d: "distinct (map ref_of (registry (world s)))"
    and nc: "\<forall>b\<in>set (registry (world s)). no_colon b"
    and gf: "\<forall>b\<in>set (registry (world s)). ref_of b \<notin> set (get_faults (world s))"
    and df: "\<forall>b\<in>set (registry (world s)). ref_of b \<in> set (delete_faults (world s))"
    and cf: "require_confirm \<longrightarrow> confirm_answer (world s)"
  shows "\<exists>s'. delete_loop reference_env None None require_confirm (int off) s = Some (Inr (), s')
     \<and> world s' = world s
     \<and> list_requests (calls s') = list_requests (calls s) @
          map (\<lambda>i. page_request None [] (int off + 50 * int i))
            [0..<Suc ((length (registry (world s)) - off + 49) div 50)]"
  using assms
proof (induction "length (registry (world s)) - off" arbitrary: off s rule: less_induct)
  case less
  let ?R = "registry (world s)"
  let ?s1 = "s\<lparr>calls := calls s @ [ListBentoCall (page_request None [] (int off))]\<rparr>"
  have pg: "page_of (page_request None [] (int off)) ?R = take 50 (drop off ?R)"
    by (simp add: page_of_all)
  show ?case
  proof (cases "length ?R \<le> off")
    case True
    have "delete_loop reference_env None None require_confirm (int off) s = Some (Inr (), ?s1)"
      using True by (subst delete_loop.simps) (simp add: list_reference_all pg)
    then show ?thesis
      using True by (simp add: list_requests_append)
  next
    case False
    let ?pg = "take 50 (drop off ?R)"
    have ne: "?pg \<noteq> []" using False by simp
    have nz: "(min (length ?R - off) 50 = 0) = False" using False by simp
    have sub0: "set ?pg \<subseteq> set ?R"
      by (meson in_set_dropD in_set_takeD subsetI)
    have d1: "distinct (map ref_of ?pg)"
      using less.prems(1) by (simp add: distinct_take distinct_drop take_map[symmetric] drop_map[symmetric])
    have sub: "set ?pg \<subseteq> set (registry (world ?s1))" using sub0 by simp
    obtain s2 where dp: "delete_page reference_env ?pg require_confirm ?s1 = (Inr (), s2)"
      and w2: "world s2 = (world ?s1)\<lparr>registry :=
          filter (\<lambda>b. ref_of b \<notin> set (map ref_of ?pg) \<or> ref_of b \<in> set (delete_faults (world ?s1)))
            (registry (world ?s1))\<rparr>"
      using delete_page_reference[OF d1 sub, of require_confirm] less.prems(2,3,5) sub0
      by auto
    have keep: "filter (\<lambda>b. ref_of b \<notin> set (map ref_of ?pg) \<or> ref_of b \<in> set (delete_faults (world s))) ?R = ?R"
      using less.prems(4) by (simp add: filter_id_conv)
    have ws2: "world s2 = world s"
      unfolding w2 using keep by simp
    have c2: "list_requests (calls s2) = list_requests (calls s) @ [page_request None [] (int off)]"
      using delete_page_list_requests[of reference_env ?pg require_confirm ?s1] dp
      by (simp add: list_requests_append)
    have dec: "length (registry (world s2)) - (off + 50) < length ?R - off"
      using False by (simp add: ws2)
    obtain s' where l: "delete_loop reference_env None None require_confirm (int (off + 50)) s2
         = Some (Inr (), s')"
      and w': "world s' = world s2"
      and c': "list_requests (calls s') = list_requests (calls s2) @
          map (\<lambda>i. page_request None [] (int (off + 50) + 50 * int i))
            [0..<Suc ((length (registry (world s2)) - (off + 50) + 49) div 50)]"
      using less.hyps[OF dec] less.prems by (auto simp: ws2)
    have "delete_loop reference_env None None require_confirm (int off) s
        = delete_loop reference_env None None require_confirm (int off + delete_list_limit) s2"
      by (subst delete_loop.simps) (simp add: list_reference_all pg dp nz)
    then have first: "delete_loop reference_env None None require_confirm (int off) s
        = Some (Inr (), s')"
      using l by (simp add: delete_list_limit_def)
    have k: "(length ?R - off + 49) div 50 = Suc ((length ?R - (off + 50) + 49) div 50)"
      using False by (intro pages_step) simp
    have "map (\<lambda>i. page_request None [] (int off + 50 * int i))
            [0..<Suc ((length ?R - off + 49) div 50)]
        = page_request None [] (int off) #
          map (\<lambda>i. page_request None [] (int (off + 50) + 50 * int i))
            [0..<Suc ((length ?R - (off + 50) + 49) div 50)]"
      unfolding k
      by (subst map_upt_Suc_shift) (simp add: algebra_simps)
    then show ?thesis
      using first w' c' c2 ws2 by simp
  qed
qed

lemma bulk_delete_two_pages_named:
  assumes d: "distinct (map ref_of (registry (world s)))"
    and nc: "\<forall>b\<in>set (registry (world s)). no_colon b \<and> pb_name b = n"
    and gf: "get_faults (world s) = []" and df: "delete_faults (world s) = []"
    and cf: "require_confirm \<longrightarrow> confirm_answer (world s)"
    and len: "50 < length (registry (world s))" "length (registry (world s)) \<le> 100"
  shows "\<exists>s'. delete_loop reference_env (Some n) None require_confirm 0 s = Some (Inr (), s')
     \<and> registry (world s') = drop 50 (registry (world s))"
proof -
  let ?R = "registry (world s)"
  let ?s1 = "s\<lparr>calls := calls s @ [ListBentoCall (page_request (Some n) [] 0)]\<rparr>"
  have lr: "list' reference_env (Some n) (Some off) (Some delete_list_limit) None None None t
     = (Inr (page_of (page_request (Some n) [] off) (registry (world t))),
        t\<lparr>calls := calls t @ [ListBentoCall (page_request (Some n) [] off)]\<rparr>)" for off t
    by (rule list_reference) simp
  have all: "filter (\<lambda>b. pb_name b = n) ?R = ?R"
    using nc by (simp add: filter_id_conv)
  have pg: "page_of (page_request (Some n) [] 0) ?R = take 50 ?R"
    by (simp add: page_of_page_request all)
  have nz: "(min (length ?R) 50 = 0) = False" using len by simp
  have d1: "distinct (map ref_of (take 50 ?R))"
    using d by (simp add: distinct_take take_map[symmetric])
  have sub: "set (take 50 ?R) \<subseteq> set (registry (world ?s1))"
    by (auto dest: in_set_takeD)
  obtain s2 where dp: "delete_page reference_env (take 50 ?R) require_confirm ?s1 = (Inr (), s2)"
    and w2: "world s2 = (world ?s1)\<lparr>registry :=
          filter (\<lambda>b. ref_of b \<notin> set (map ref_of (take 50 ?R)) \<or> ref_of b \<in> set (delete_faults (world ?s1)))
            (registry (world ?s1))\<rparr>"
    using delete_page_reference[OF d1 sub, of require_confirm] nc gf cf
    by (auto dest: in_set_takeD)
  have r2: "registry (world s2) = drop 50 ?R"
    unfolding w2 using filter_notin_take[OF d, of 50] by (simp add: df)
  have all2: "filter (\<lambda>b. pb_name b = n) (drop 50 ?R) = drop 50 ?R"
    using nc by (auto simp add: filter_id_conv dest: in_set_dropD)
  have pg2: "page_of (page_request (Some n) [] 50) (registry (world s2)) = []"
    using len by (simp add: page_of_page_request r2 all2)
  have second: "delete_loop reference_env (Some n) None require_confirm 50 s2
      = Some (Inr (), s2\<lparr>calls := calls s2 @ [ListBentoCall (page_request (Some n) [] 50)]\<rparr>)"
    by (subst delete_loop.simps) (simp add: lr pg2)
  have "delete_loop reference_env (Some n) None require_confirm 0 s
      = delete_loop reference_env (Some n) None require_confirm delete_list_limit s2"
    by (subst delete_loop.simps) (simp add: lr pg dp nz)
  then have first: "delete_loop reference_env (Some n) None require_confirm 0 s
      = delete_loop reference_env (Some n) None require_confirm 50 s2"
    by (simp add: delete_list_limit_def)
  show ?thesis using first second r2 by simp
qed

lemma filter_refs_of_matching:
  assumes "distinct (map f R)"
  shows "filter (\<lambda>x. f x \<notin> set (map f (filter M R)) \<or> f x \<in> F) R
       = filter (\<lambda>x. \<not> M x \<or> f x \<in> F) R"
proof (rule filter_cong[OF refl])
  fix x assume x: "x \<in> set R"
  have "f x \<in> f ` set (filter M R) \<longleftrightarrow> M x"
  proof
    assume "f x \<in> f ` set (filter M R)"
    then obtain y where y: "y \<in> set R" "M y" "f y = f x" by auto
    have "inj_on f (set R)" using assms by (simp add: distinct_map)
    then have "y = x" using x y by (auto dest: inj_onD)
    then show "M x" using y by simp
  next
    assume "M x" then show "f x \<in> f ` set (filter M R)" using x by auto
  qed
  then show "(f x \<notin> set (map f (filter M R)) \<or> f x \<in> F) = (\<not> M x \<or> f x \<in> F)" by simp
qed

lemma bulk_delete_filtered:
  assumes sel: "(case labels of None \<Rightarrow> Inr [] | Some q \<Rightarrow> fst (parse_key_value_pairs (Some q))) = Inr sel"
    and d: "distinct (map ref_of (registry (world s)))"
    and nc: "\<forall>b\<in>set (registry (world s)). matches (page_request name sel 0) b \<longrightarrow> no_colon b"
    and gf: "\<forall>b\<in>set (registry (world s)). matches (page_request name sel 0) b
               \<longrightarrow> ref_of b \<notin> set (get_faults (world s))"
    and cf: "require_confirm \<longrightarrow> confirm_answer (world s)"
    and len: "length (filter (matches (page_request name sel 0)) (registry (world s))) \<le> 50"
  shows "\<exists>s'. delete_loop reference_env name labels require_confirm 0 s = Some (Inr (), s')
     \<and> registry (world s')
         = filter (\<lambda>b. \<not> matches (page_request name sel 0) b
                        \<or> ref_of b \<in> set (delete_faults (world s))) (registry (world s))
     \<and> list_requests (calls s') = list_requests (calls s) @
          (if filter (matches (page_request name sel 0)) (registry (world s)) = []
           then [page_request name sel 0]
           else [page_request name sel 0, page_request name sel 50])"
proof (cases "filter (matches (page_request name sel 0)) (registry (world s)) = []")
  case True
  have keep: "filter (\<lambda>b. \<not> matches (page_request name sel 0) b
                        \<or> ref_of b \<in> set (delete_faults (world s))) (registry (world s))
       = registry (world s)"
    using True by (simp add: filter_empty_conv)
  have step: "delete_loop reference_env name labels require_confirm 0 s
      = Some (Inr (), s\<lparr>calls := calls s @ [ListBentoCall (page_request name sel 0)]\<rparr>)"
    using True
    by (subst delete_loop.simps) (simp add: list_reference[OF sel] page_of_page_request)
  show ?thesis
    unfolding step using True keep by (simp add: list_requests_append)
next
  case False
  let ?R = "registry (world s)"
  let ?M = "matches (page_request name sel 0)"
  let ?pg = "filter ?M ?R"
  let ?s1 = "s\<lparr>calls := calls s @ [ListBentoCall (page_request name sel 0)]\<rparr>"
  have pg: "page_of (page_request name sel 0) ?R = ?pg"
    using len by (simp add: page_of_page_request)
  have d1: "distinct (map ref_of ?pg)" using d by (simp add: distinct_map_filter)
  obtain s2 where dp: "delete_page reference_env ?pg require_confirm ?s1 = (Inr (), s2)"
    and w2: "world s2 = (world ?s1)\<lparr>registry :=
          filter (\<lambda>b. ref_of b \<notin> set (map ref_of ?pg) \<or> ref_of b \<in> set (delete_faults (world ?s1)))
            (registry (world ?s1))\<rparr>"
    using delete_page_reference[of ?pg ?s1 require_confirm] d1 nc gf cf by auto
  have r2: "registry (world s2)
      = filter (\<lambda>b. \<not> ?M b \<or> ref_of b \<in> set (delete_faults (world s))) ?R"
    unfolding w2 using filter_refs_of_matching[OF d, of ?M "set (delete_faults (world s))"] by simp
  have c2: "list_requests (calls s2) = list_requests (calls s) @ [page_request name sel 0]"
    using delete_page_list_requests[of reference_env ?pg require_confirm ?s1] dp
    by (simp add: list_requests_append)
  have "length (filter ?M (registry (world s2))) \<le> length ?pg"
    unfolding r2 by (rule length_filter_filter_le)
  then have len2: "length (filter ?M (registry (world s2))) \<le> 50" using len by simp
  have pg2: "page_of (page_request name sel 50) (registry (world s2)) = []"
    using len2 by (simp add: page_of_page_request)
  have second: "delete_loop reference_env name labels require_confirm 50 s2
      = Some (Inr (), s2\<lparr>calls := calls s2 @ [ListBentoCall (page_request name sel 50)]\<rparr>)"
    by (subst delete_loop.simps) (simp add: list_reference[OF sel] pg2)
  have "delete_loop reference_env name labels require_confirm 0 s
      = delete_loop reference_env name labels require_confirm delete_list_limit s2"
    using False by (subst delete_loop.simps) (simp add: list_reference[OF sel] pg dp)
  then have first: "delete_loop reference_env name labels require_confirm 0 s
      = delete_loop reference_env name labels require_confirm 50 s2"
    by (simp add: delete_list_limit_def)
  show ?thesis
    using False first second r2 c2 by (simp add: list_requests_append)
qed

section \<open>Example registries\<close>

lemma length_numbered [simp]: "length (numbered n) = n"
  by (simp add: numbered_def)

lemma distinct_numbered: "distinct (map ref_of (numbered n))"
proof -
  have "inj_on (\<lambda>i. ref_of (registered ''svc'' (replicate (Suc i) (CHR ''v'')) DONE)) (set [0..<n])"
  proof (rule inj_onI)
    fix i j
    assume "ref_of (registered ''svc'' (replicate (Suc i) (CHR ''v'')) DONE)
          = ref_of (registered ''svc'' (replicate (Suc j) (CHR ''v'')) DONE)"
    then have "replicate (Suc i) (CHR ''v'') = replicate (Suc j) (CHR ''v'')"
      by (simp add: ref_of_def registered_def)
    then have "length (replicate (Suc i) (CHR ''v'')) = length (replicate (Suc j) (CHR ''v''))"
      by (rule arg_cong)
    then show "i = j" by simp
  qed
  then show ?thesis
    by (simp add: numbered_def distinct_map comp_def)
qed

lemma no_colon_numbered: "\<forall>b\<in>set (numbered n). no_colon b"
  by (auto simp: numbered_def no_colon_def registered_def)

lemma name_numbered: "\<forall>b\<in>set (numbered k). no_colon b \<and> pb_name b = ''svc''"
  by (auto simp: numbered_def no_colon_def registered_def)

lemma replicate_51: "replicate 51 x = x # replicate 50 x"
  using replicate_Suc[of 50 x] by (simp del: replicate_Suc replicate.simps)

lemma drop_numbered: "drop 50 (numbered 51) = [registered ''svc'' (replicate 51 (CHR ''v'')) DONE]"
  by (simp add: numbered_def drop_map replicate_51)

lemma world_logger [simp]: "world (logger l s) = world s" "calls (logger l s) = calls s"
  by (simp_all add: logger_def)

lemma site_sel [simp]:
  "registry (site bs) = bs" "get_faults (site bs) = []" "delete_faults (site bs) = []"
  "add_faults (site bs) = []"
  "confirm_answer (site bs) = True" "storage (site bs) = local_storage"
  by (simp_all add: site_def)

lemma start_sel [simp]: "world (start w) = w" "calls (start w) = []" "logs (start w) = []"
  by (simp_all add: start_def)

section \<open>delete: the selectors\<close>

text \<open>
  C4 (amended). The usage error is raised, before anything is called or logged, when
  \<open>bento_tag\<close>, \<open>bento_name\<close> and \<open>bento_version\<close> are all three set. Every other
  combination is accepted: a set \<open>bento_tag\<close> deletes that one bundle whatever else is
  given; without it the bulk delete runs, over everything when \<open>prune\<close> is set (name,
  version and labels are dropped), else, with no version given, filtered by name and
  labels.
\<close>

theorem delete_selector_guard:
  "(bento_tag \<noteq> None \<and> bento_name \<noteq> None \<and> bento_version \<noteq> None \<longrightarrow>
      delete env bento_tag labels bento_name bento_version prune require_confirm s
        = Some (Inl TooMuchArguments, s))
   \<and> (bento_name = None \<or> bento_version = None \<longrightarrow>
      delete env (Some t) labels bento_name bento_version prune require_confirm s
        = Some (delete_bento_bundle env t require_confirm (logger (InfoDeletingTag t) s)))
   \<and> delete env None labels bento_name bento_version True require_confirm s
        = delete_loop env None None require_confirm 0 (logger InfoDeletingAll s)
   \<and> delete env None labels bento_name None False require_confirm s
        = delete_loop env bento_name labels require_confirm 0
            (logger (InfoDeletingFiltered bento_name labels) s)"
  by (auto simp add: delete_def)

theorem delete_selector_guard_witness:
  "delete reference_env (Some ''a:1'') None (Some ''a'') (Some ''1'') False False
      (start (site [registered ''a'' ''1'' DONE]))
     = Some (Inl TooMuchArguments, start (site [registered ''a'' ''1'' DONE]))
   \<and> delete reference_env (Some ''a:1'') None (Some ''a'') None False False
      (start (site [registered ''a'' ''1'' DONE]))
     = Some (delete_bento_bundle reference_env ''a:1'' False
              (logger (InfoDeletingTag ''a:1'') (start (site [registered ''a'' ''1'' DONE]))))"
  using delete_selector_guard[of "Some ''a:1''" "Some ''a''" "Some ''1''" reference_env None False False
      "start (site [registered ''a'' ''1'' DONE])" "''a:1''"]
    delete_selector_guard[of "Some ''a:1''" "Some ''a''" None reference_env None False False
      "start (site [registered ''a'' ''1'' DONE])" "''a:1''"]
  by simp

text \<open>
  C4 as stated fails: an exact reference together with a name and with \<open>prune\<close> (three
  selector modes at once) is accepted; the bundle of the reference is deleted.
\<close>

theorem delete_accepts_two_selectors:
  "delete reference_env (Some ''a:1'') None (Some ''a'') None True False
      (start (site [registered ''a'' ''1'' DONE, registered ''a'' ''2'' DONE]))
   = Some (Inr (),
           \<lparr>world = site [registered ''a'' ''2'' DONE],
            calls = [GetBentoCall ''a'' ''1'', DangerouslyDeleteBentoCall ''a'' ''1''],
            logs = [InfoDeletingTag ''a:1'', InfoDeleted ''a'' ''1'']\<rparr>)"
  by (simp add: delete_def delete_bento_bundle_def get_reference[of "''a''" "''1''", simplified]
      find_bento_def ref_of_def registered_def call_DangerouslyDeleteBento_def
      ref_DangerouslyDeleteBento_def logger_def start_def site_def status_ok_def)

text \<open>
  C10 (amended). With \<open>bento_tag\<close> unset and a name given, a given \<open>bento_version\<close>
  changes nothing: the call is the bulk delete, over every bundle when \<open>prune\<close> is set,
  else filtered by the name and the labels. Against the reference authority, with
  \<open>prune\<close> unset, no labels, at most 50 bundles of that name with unique references
  that hold no colon, none of them failing at Get or at DangerouslyDelete, and the
  confirmation either not required or given, every version of the name is gone
  afterwards and every other bundle is kept.
\<close>

theorem delete_ignores_version:
  "delete env None labels (Some n) (Some v) prune require_confirm s
     = delete env None labels (Some n) None prune require_confirm s
   \<and> delete env None labels (Some n) (Some v) True require_confirm s
     = delete_loop env None None require_confirm 0 (logger InfoDeletingAll s)
   \<and> delete env None labels (Some n) (Some v) False require_confirm s
     = delete_loop env (Some n) labels require_confirm 0
         (logger (InfoDeletingFiltered (Some n) labels) s)
   \<and> (distinct (map ref_of (registry (world t)))
        \<and> (\<forall>b\<in>set (registry (world t)). pb_name b = n \<longrightarrow>
              no_colon b \<and> ref_of b \<notin> set (get_faults (world t))
              \<and> ref_of b \<notin> set (delete_faults (world t)))
        \<and> (require_confirm \<longrightarrow> confirm_answer (world t))
        \<and> length (filter (\<lambda>b. pb_name b = n) (registry (world t))) \<le> 50
      \<longrightarrow> (\<exists>t'. delete reference_env None None (Some n) (Some v) False require_confirm t
                   = Some (Inr (), t')
             \<and> registry (world t') = filter (\<lambda>b. pb_name b \<noteq> n) (registry (world t))))"
proof (intro conjI impI)
  assume a: "distinct (map ref_of (registry (world t)))
        \<and> (\<forall>b\<in>set (registry (world t)). pb_name b = n \<longrightarrow>
              no_colon b \<and> ref_of b \<notin> set (get_faults (world t))
              \<and> ref_of b \<notin> set (delete_faults (world t)))
        \<and> (require_confirm \<longrightarrow> confirm_answer (world t))
        \<and> length (filter (\<lambda>b. pb_name b = n) (registry (world t))) \<le> 50"
  let ?t = "logger (InfoDeletingFiltered (Some n) None) t"
  have "\<exists>s'. delete_loop reference_env (Some n) None require_confirm 0 ?t = Some (Inr (), s')
     \<and> registry (world s')
         = filter (\<lambda>b. \<not> matches (page_request (Some n) [] 0) b
                        \<or> ref_of b \<in> set (delete_faults (world ?t))) (registry (world ?t))
     \<and> list_requests (calls s') = list_requests (calls ?t) @
          (if filter (matches (page_request (Some n) [] 0)) (registry (world ?t)) = []
           then [page_request (Some n) [] 0]
           else [page_request (Some n) [] 0, page_request (Some n) [] 50])"
    using a by (intro bulk_delete_filtered) simp_all
  moreover have "filter (\<lambda>b. \<not> pb_name b = n \<or> ref_of b \<in> set (delete_faults (world t))) (registry (world t))
      = filter (\<lambda>b. pb_name b \<noteq> n) (registry (world t))"
    using a by (intro filter_cong) auto
  ultimately show "\<exists>t'. delete reference_env None None (Some n) (Some v) False require_confirm t
                   = Some (Inr (), t')
             \<and> registry (world t') = filter (\<lambda>b. pb_name b \<noteq> n) (registry (world t))"
    by (auto simp add: delete_def)
qed (simp_all add: delete_def)

theorem delete_ignores_version_witness:
  "delete reference_env None None (Some ''a'') (Some ''1'') False False
      (start (site [registered ''a'' ''1'' DONE, registered ''a'' ''2'' DONE, registered ''b'' ''1'' DONE]))
     = delete reference_env None None (Some ''a'') None False False
      (start (site [registered ''a'' ''1'' DONE, registered ''a'' ''2'' DONE, registered ''b'' ''1'' DONE]))
   \<and> registry_after (delete reference_env None None (Some ''a'') (Some ''1'') False False
      (start (site [registered ''a'' ''1'' DONE, registered ''a'' ''2'' DONE, registered ''b'' ''1'' DONE])))
     = Some [registered ''b'' ''1'' DONE]"
proof -
  let ?s = "start (site [registered ''a'' ''1'' DONE, registered ''a'' ''2'' DONE, registered ''b'' ''1'' DONE])"
  note th = delete_ignores_version[of reference_env None "''a''" "''1''" False False ?s ?s]
  have 1: "delete reference_env None None (Some ''a'') (Some ''1'') False False ?s
     = delete reference_env None None (Some ''a'') None False False ?s"
    using th[THEN conjunct1] .
  have "\<exists>t'. delete reference_env None None (Some ''a'') (Some ''1'') False False ?s = Some (Inr (), t')
      \<and> registry (world t') = filter (\<lambda>b. pb_name b \<noteq> ''a'') (registry (world ?s))"
    using th[THEN conjunct2, THEN conjunct2, THEN conjunct2]
    by (simp add: ref_of_def registered_def no_colon_def)
  then have 2: "registry_after (delete reference_env None None (Some ''a'') (Some ''1'') False False ?s)
     = Some [registered ''b'' ''1'' DONE]"
    by (auto simp: registry_after_def registered_def)
  show ?thesis using 1 2 by simp
qed

text \<open>
  C10 as stated fails: with \<open>prune\<close> set the bundles of every other name are deleted
  too; with labels given the filter is by name and labels, and versions of the name that
  do not carry the labels stay; and of 51 versions of one name one is left, the second
  page being read at offset 50.
\<close>

theorem delete_by_name_and_version_not_by_name_only:
  "registry_after (delete reference_env None None (Some ''a'') (Some ''1'') True False
        (start (site [registered ''a'' ''1'' DONE, registered ''b'' ''1'' DONE])))
     = Some []
   \<and> registry_after (delete reference_env None (Some ''k=x'') (Some ''a'') (Some ''1'') False False
        (start (site [registered ''a'' ''1'' DONE, registered ''a'' ''2'' DONE])))
     = Some [registered ''a'' ''1'' DONE, registered ''a'' ''2'' DONE]
   \<and> registry_after (delete reference_env None None (Some ''svc'') (Some ''v'') False False
        (start (site (numbered 51))))
     = Some [registered ''svc'' (replicate 51 (CHR ''v'')) DONE]"
proof (intro conjI)
  let ?s = "logger InfoDeletingAll (start (site [registered ''a'' ''1'' DONE, registered ''b'' ''1'' DONE]))"
  have "\<exists>s'. delete_loop reference_env None None False 0 ?s = Some (Inr (), s')
     \<and> registry (world s')
         = filter (\<lambda>b. \<not> matches (page_request None [] 0) b
                        \<or> ref_of b \<in> set (delete_faults (world ?s))) (registry (world ?s))
     \<and> list_requests (calls s') = list_requests (calls ?s) @
          (if filter (matches (page_request None [] 0)) (registry (world ?s)) = []
           then [page_request None [] 0]
           else [page_request None [] 0, page_request None [] 50])"
    by (rule bulk_delete_filtered) (simp_all add: no_colon_def registered_def ref_of_def)
  then show "registry_after (delete reference_env None None (Some ''a'') (Some ''1'') True False
        (start (site [registered ''a'' ''1'' DONE, registered ''b'' ''1'' DONE]))) = Some []"
    by (auto simp: delete_def registry_after_def)
next
  let ?s = "logger (InfoDeletingFiltered (Some ''a'') (Some ''k=x''))
              (start (site [registered ''a'' ''1'' DONE, registered ''a'' ''2'' DONE]))"
  have sel: "(case Some ''k=x'' of None \<Rightarrow> Inr [] | Some q \<Rightarrow> fst (parse_key_value_pairs (Some q)))
      = Inr [(''k'', ''x'')]"
    by (simp add: parse_key_value_pairs_def str_strip_def is_space_def Let_def)
  have nm: "\<not> matches (page_request (Some ''a'') [(''k'', ''x'')] 0) (registered n v DONE)" for n v
    by (simp add: matches_def page_request_def registered_def)
  have "\<exists>s'. delete_loop reference_env (Some ''a'') (Some ''k=x'') False 0 ?s = Some (Inr (), s')
     \<and> registry (world s')
         = filter (\<lambda>b. \<not> matches (page_request (Some ''a'') [(''k'', ''x'')] 0) b
                        \<or> ref_of b \<in> set (delete_faults (world ?s))) (registry (world ?s))
     \<and> list_requests (calls s') = list_requests (calls ?s) @
          (if filter (matches (page_request (Some ''a'') [(''k'', ''x'')] 0)) (registry (world ?s)) = []
           then [page_request (Some ''a'') [(''k'', ''x'')] 0]
           else [page_request (Some ''a'') [(''k'', ''x'')] 0, page_request (Some ''a'') [(''k'', ''x'')] 50])"
    by (rule bulk_delete_filtered[OF sel]) (simp_all add: nm, simp add: ref_of_def registered_def)
  then show "registry_after (delete reference_env None (Some ''k=x'') (Some ''a'') (Some ''1'') False False
        (start (site [registered ''a'' ''1'' DONE, registered ''a'' ''2'' DONE])))
     = Some [registered ''a'' ''1'' DONE, registered ''a'' ''2'' DONE]"
    by (auto simp: delete_def registry_after_def nm)
next
  let ?s = "logger (InfoDeletingFiltered (Some ''svc'') None) (start (site (numbered 51)))"
  have "\<exists>s'. delete_loop reference_env (Some ''svc'') None False 0 ?s = Some (Inr (), s')
     \<and> registry (world s') = drop 50 (registry (world ?s))"
    by (rule bulk_delete_two_pages_named) (simp_all add: distinct_numbered name_numbered)
  then show "registry_after (delete reference_env None None (Some ''svc'') (Some ''v'') False False
        (start (site (numbered 51))))
     = Some [registered ''svc'' (replicate 51 (CHR ''v'')) DONE]"
    by (auto simp: delete_def registry_after_def drop_numbered)
qed

section \<open>delete: the bulk loop\<close>

lemma delete_loop_round:
  assumes "0 \<le> off"
    and "list' env name (Some off) (Some 50) labels None None t = (Inr pg, t1)"
  shows "(pg = [] \<longrightarrow> delete_loop env name labels rc off t = Some (Inr (), t1))
       \<and> (pg \<noteq> [] \<and> delete_page env pg rc t1 = (Inr (), t2) \<longrightarrow>
            delete_loop env name labels rc off t = delete_loop env name labels rc (off + 50) t2)"
proof -
  have l: "list' env name (Some off) (Some delete_list_limit) labels None None t = (Inr pg, t1)"
    using assms(2) by (simp add: delete_list_limit_def)
  have a: "pg = [] \<Longrightarrow> delete_loop env name labels rc off t = Some (Inr (), t1)"
    using assms(1) by (subst delete_loop.simps) (simp add: l)
  have "pg \<noteq> [] \<Longrightarrow> delete_page env pg rc t1 = (Inr (), t2) \<Longrightarrow>
       delete_loop env name labels rc off t
         = delete_loop env name labels rc (off + delete_list_limit) t2"
    using assms(1) by (subst delete_loop.simps) (simp add: l)
  then have b: "pg \<noteq> [] \<Longrightarrow> delete_page env pg rc t1 = (Inr (), t2) \<Longrightarrow>
       delete_loop env name labels rc off t = delete_loop env name labels rc (off + 50) t2"
    by (simp add: delete_list_limit_def)
  show ?thesis using a b by blast
qed

lemma round_example:
  "list' reference_env None (Some 0) (Some 50) None None None
      (start (site [registered ''a'' ''1'' DONE]))
     = (Inr [registered ''a'' ''1'' DONE],
        \<lparr>world = site [registered ''a'' ''1'' DONE],
         calls = [ListBentoCall (page_request None [] 0)], logs = []\<rparr>)"
  "delete_page reference_env [registered ''a'' ''1'' DONE] False
      \<lparr>world = site [registered ''a'' ''1'' DONE],
       calls = [ListBentoCall (page_request None [] 0)], logs = []\<rparr>
     = (Inr (),
        \<lparr>world = site [],
         calls = [ListBentoCall (page_request None [] 0), GetBentoCall ''a'' ''1'',
                  DangerouslyDeleteBentoCall ''a'' ''1''],
         logs = [InfoDeleted ''a'' ''1'']\<rparr>)"
proof -
  show "list' reference_env None (Some 0) (Some 50) None None None
      (start (site [registered ''a'' ''1'' DONE]))
     = (Inr [registered ''a'' ''1'' DONE],
        \<lparr>world = site [registered ''a'' ''1'' DONE],
         calls = [ListBentoCall (page_request None [] 0)], logs = []\<rparr>)"
    using list_reference_all[of 0 "start (site [registered ''a'' ''1'' DONE])"]
    by (simp add: page_of_all delete_list_limit_def start_def)
  have pn: "pb_name (registered ''a'' ''1'' DONE) = ''a''" "pb_version (registered ''a'' ''1'' DONE) = ''1''"
    by (simp_all add: registered_def)
  show "delete_page reference_env [registered ''a'' ''1'' DONE] False
      \<lparr>world = site [registered ''a'' ''1'' DONE],
       calls = [ListBentoCall (page_request None [] 0)], logs = []\<rparr>
     = (Inr (),
        \<lparr>world = site [],
         calls = [ListBentoCall (page_request None [] 0), GetBentoCall ''a'' ''1'',
                  DangerouslyDeleteBentoCall ''a'' ''1''],
         logs = [InfoDeleted ''a'' ''1'']\<rparr>)"
    by (simp add: pn delete_bento_bundle_def get_reference[of "''a''" "''1''", simplified]
      find_bento_def ref_of_def call_DangerouslyDeleteBento_def
      ref_DangerouslyDeleteBento_def logger_def site_def status_ok_def)
qed

text \<open>
  C1 (amended). Against the reference authority every call of delete returns, whatever
  failures are injected. With \<open>prune\<close> set, references that are unique and hold no
  colon, no failing Get, and the confirmation either not required or given: when at most
  50 bundles are registered the call returns normally and the registry keeps exactly the
  bundles whose DangerouslyDelete failed (none when no failure is injected), after the
  List requests of offset 0 and, when the first page was not empty, of offset 50; when
  every DangerouslyDelete fails, for any number N of bundles, the registry is unchanged
  and the List requests are those of the offsets 0, 50, 100 and so on up to the first
  offset that is not below N. For every collaborator and every round of the loop: the
  page is asked for with limit 50; an empty page ends the loop normally, and after a page
  whose deletions raised nothing the next round runs at the offset advanced by 50.
\<close>

theorem bulk_delete_prune:
  "delete reference_env bento_tag labels bento_name bento_version prune require_confirm s \<noteq> None
   \<and> (distinct (map ref_of (registry (world s)))
        \<and> (\<forall>b\<in>set (registry (world s)). no_colon b \<and> ref_of b \<notin> set (get_faults (world s)))
        \<and> (require_confirm \<longrightarrow> confirm_answer (world s))
        \<and> length (registry (world s)) \<le> 50
      \<longrightarrow> (\<exists>s'. delete reference_env None labels bento_name bento_version True require_confirm s
                   = Some (Inr (), s')
             \<and> registry (world s')
                 = filter (\<lambda>b. ref_of b \<in> set (delete_faults (world s))) (registry (world s))
             \<and> list_requests (calls s') = list_requests (calls s) @
                  (if registry (world s) = [] then [page_request None [] 0]
                   else [page_request None [] 0, page_request None [] 50])))
   \<and> (distinct (map ref_of (registry (world s)))
        \<and> (\<forall>b\<in>set (registry (world s)). no_colon b \<and> ref_of b \<notin> set (get_faults (world s))
                \<and> ref_of b \<in> set (delete_faults (world s)))
        \<and> (require_confirm \<longrightarrow> confirm_answer (world s))
      \<longrightarrow> (\<exists>s'. delete reference_env None labels bento_name bento_version True require_confirm s
                   = Some (Inr (), s')
             \<and> registry (world s') = registry (world s)
             \<and> list_requests (calls s') = list_requests (calls s) @
                  map (\<lambda>i. page_request None [] (50 * int i))
                    [0..<Suc ((length (registry (world s)) + 49) div 50)]))
   \<and> (0 \<le> off \<and> list' env bento_name (Some off) (Some 50) labels None None t = (Inr pg, t1)
      \<longrightarrow> (pg = [] \<longrightarrow>
             delete_loop env bento_name labels require_confirm off t = Some (Inr (), t1))
          \<and> (pg \<noteq> [] \<and> delete_page env pg require_confirm t1 = (Inr (), t2) \<longrightarrow>
             delete_loop env bento_name labels require_confirm off t
               = delete_loop env bento_name labels require_confirm (off + 50) t2))"
proof (intro conjI impI)
  show "delete reference_env bento_tag labels bento_name bento_version prune require_confirm s \<noteq> None"
    by (rule delete_reference_terminates)
next
  assume a: "distinct (map ref_of (registry (world s)))
        \<and> (\<forall>b\<in>set (registry (world s)). no_colon b \<and> ref_of b \<notin> set (get_faults (world s)))
        \<and> (require_confirm \<longrightarrow> confirm_answer (world s))
        \<and> length (registry (world s)) \<le> 50"
  let ?s = "logger InfoDeletingAll s"
  have "\<exists>s'. delete_loop reference_env None None require_confirm 0 ?s = Some (Inr (), s')
     \<and> registry (world s')
         = filter (\<lambda>b. \<not> matches (page_request None [] 0) b
                        \<or> ref_of b \<in> set (delete_faults (world ?s))) (registry (world ?s))
     \<and> list_requests (calls s') = list_requests (calls ?s) @
          (if filter (matches (page_request None [] 0)) (registry (world ?s)) = []
           then [page_request None [] 0]
           else [page_request None [] 0, page_request None [] 50])"
    using a by (intro bulk_delete_filtered) simp_all
  then show "\<exists>s'. delete reference_env None labels bento_name bento_version True require_confirm s
                   = Some (Inr (), s')
             \<and> registry (world s')
                 = filter (\<lambda>b. ref_of b \<in> set (delete_faults (world s))) (registry (world s))
             \<and> list_requests (calls s') = list_requests (calls s) @
                  (if registry (world s) = [] then [page_request None [] 0]
                   else [page_request None [] 0, page_request None [] 50])"
    by (simp add: delete_def)
next
  assume a: "distinct (map ref_of (registry (world s)))
        \<and> (\<forall>b\<in>set (registry (world s)). no_colon b \<and> ref_of b \<notin> set (get_faults (world s))
                \<and> ref_of b \<in> set (delete_faults (world s)))
        \<and> (require_confirm \<longrightarrow> confirm_answer (world s))"
  let ?s = "logger InfoDeletingAll s"
  have "\<exists>s'. delete_loop reference_env None None require_confirm (int 0) ?s = Some (Inr (), s')
     \<and> world s' = world ?s
     \<and> list_requests (calls s') = list_requests (calls ?s) @
          map (\<lambda>i. page_request None [] (int 0 + 50 * int i))
            [0..<Suc ((length (registry (world ?s)) - 0 + 49) div 50)]"
    using a by (intro bulk_delete_all_failing) simp_all
  then show "\<exists>s'. delete reference_env None labels bento_name bento_version True require_confirm s
                   = Some (Inr (), s')
             \<and> registry (world s') = registry (world s)
             \<and> list_requests (calls s') = list_requests (calls s) @
                  map (\<lambda>i. page_request None [] (50 * int i))
                    [0..<Suc ((length (registry (world s)) + 49) div 50)]"
    by (auto simp add: delete_def)
next
  assume a: "0 \<le> off \<and> list' env bento_name (Some off) (Some 50) labels None None t = (Inr pg, t1)"
    and e: "pg = []"
  show "delete_loop env bento_name labels require_confirm off t = Some (Inr (), t1)"
    using delete_loop_round[of off env bento_name labels t pg t1 require_confirm] a e by blast
next
  assume a: "0 \<le> off \<and> list' env bento_name (Some off) (Some 50) labels None None t = (Inr pg, t1)"
    and n: "pg \<noteq> [] \<and> delete_page env pg require_confirm t1 = (Inr (), t2)"
  show "delete_loop env bento_name labels require_confirm off t
          = delete_loop env bento_name labels require_confirm (off + 50) t2"
    using delete_loop_round[of off env bento_name labels t pg t1 require_confirm t2] a n by blast
qed

theorem bulk_delete_prune_witness:
  "delete reference_env None None None None True False
      (start ((site [registered ''a'' ''1'' DONE, registered ''b'' ''1'' DONE])
                \<lparr>delete_faults := [(''b'', ''1'')]\<rparr>)) \<noteq> None
   \<and> registry_after (delete reference_env None None None None True False
      (start ((site [registered ''a'' ''1'' DONE, registered ''b'' ''1'' DONE])
                \<lparr>delete_faults := [(''b'', ''1'')]\<rparr>)))
     = Some [registered ''b'' ''1'' DONE]
   \<and> map_option list_requests (calls_after (delete reference_env None None None None True False
      (start ((site [registered ''a'' ''1'' DONE, registered ''b'' ''1'' DONE])
                \<lparr>delete_faults := [(''b'', ''1'')]\<rparr>))))
     = Some [page_request None [] 0, page_request None [] 50]
   \<and> registry_after (delete reference_env None None None None True False
      (start ((site (numbered 120))\<lparr>delete_faults := map ref_of (numbered 120)\<rparr>)))
     = Some (numbered 120)
   \<and> map_option list_requests (calls_after (delete reference_env None None None None True False
      (start ((site (numbered 120))\<lparr>delete_faults := map ref_of (numbered 120)\<rparr>))))
     = Some [page_request None [] 0, page_request None [] 50, page_request None [] 100,
             page_request None [] 150]
   \<and> delete_loop reference_env None None False 0 (start (site [registered ''a'' ''1'' DONE]))
     = delete_loop reference_env None None False 50
         \<lparr>world = site [],
          calls = [ListBentoCall (page_request None [] 0), GetBentoCall ''a'' ''1'',
                   DangerouslyDeleteBentoCall ''a'' ''1''],
          logs = [InfoDeleted ''a'' ''1'']\<rparr>"
proof -
  let ?s = "start ((site [registered ''a'' ''1'' DONE, registered ''b'' ''1'' DONE])
                \<lparr>delete_faults := [(''b'', ''1'')]\<rparr>)"
  let ?t = "start ((site (numbered 120))\<lparr>delete_faults := map ref_of (numbered 120)\<rparr>)"
  note th = bulk_delete_prune[of None None None None True False ?s]
  note tt = bulk_delete_prune[of None None None None True False ?t]
  have 1: "delete reference_env None None None None True False ?s \<noteq> None"
    using th[THEN conjunct1] .
  have "\<exists>s'. delete reference_env None None None None True False ?s = Some (Inr (), s')
             \<and> registry (world s')
                 = filter (\<lambda>b. ref_of b \<in> set (delete_faults (world ?s))) (registry (world ?s))
             \<and> list_requests (calls s') = list_requests (calls ?s) @
                  (if registry (world ?s) = [] then [page_request None [] 0]
                   else [page_request None [] 0, page_request None [] 50])"
    using th[THEN conjunct2, THEN conjunct1]
    by (simp add: ref_of_def registered_def no_colon_def)
  then have 2: "registry_after (delete reference_env None None None None True False ?s)
       = Some [registered ''b'' ''1'' DONE]
     \<and> map_option list_requests (calls_after (delete reference_env None None None None True False ?s))
       = Some [page_request None [] 0, page_request None [] 50]"
    by (auto simp: registry_after_def calls_after_def ref_of_def registered_def)
  have up: "[0..<Suc ((120 + 49) div 50)] = [0, 1, 2, 3]"
    by (simp add: upt_rec)
  have "\<exists>s'. delete reference_env None None None None True False ?t = Some (Inr (), s')
             \<and> registry (world s') = registry (world ?t)
             \<and> list_requests (calls s') = list_requests (calls ?t) @
                  map (\<lambda>i. page_request None [] (50 * int i))
                    [0..<Suc ((length (registry (world ?t)) + 49) div 50)]"
    using tt[THEN conjunct2, THEN conjunct2, THEN conjunct1]
      distinct_numbered[of 120] no_colon_numbered[of 120]
    by simp
  then have 3: "registry_after (delete reference_env None None None None True False ?t)
       = Some (numbered 120)
     \<and> map_option list_requests (calls_after (delete reference_env None None None None True False ?t))
       = Some [page_request None [] 0, page_request None [] 50, page_request None [] 100,
               page_request None [] 150]"
    using up by (auto simp: registry_after_def calls_after_def)
  note tr = bulk_delete_prune[where env = reference_env and bento_name = None and labels = None
      and require_confirm = False and off = 0
      and t = "start (site [registered ''a'' ''1'' DONE])"
      and pg = "[registered ''a'' ''1'' DONE]"
      and ?t1.0 = "\<lparr>world = site [registered ''a'' ''1'' DONE],
                     calls = [ListBentoCall (page_request None [] 0)], logs = []\<rparr>"
      and ?t2.0 = "\<lparr>world = site [],
                     calls = [ListBentoCall (page_request None [] 0), GetBentoCall ''a'' ''1'',
                              DangerouslyDeleteBentoCall ''a'' ''1''],
                     logs = [InfoDeleted ''a'' ''1'']\<rparr>"]
  have 4: "delete_loop reference_env None None False 0 (start (site [registered ''a'' ''1'' DONE]))
     = delete_loop reference_env None None False 50
         \<lparr>world = site [],
          calls = [ListBentoCall (page_request None [] 0), GetBentoCall ''a'' ''1'',
                   DangerouslyDeleteBentoCall ''a'' ''1''],
          logs = [InfoDeleted ''a'' ''1'']\<rparr>"
    using tr[THEN conjunct2, THEN conjunct2, THEN conjunct2] round_example
    by simp
  show ?thesis using 1 2 3 4 by simp
qed

text \<open>
  C1 as stated fails: a bundle whose deletion fails stays registered, and of 51 bundles
  with no failure at all one is left, since the second page is read at offset 50 of a
  registry that holds one bundle by then.
\<close>

theorem bulk_delete_leaves_bundles:
  "registry_after (delete reference_env None None None None True False
        (start ((site [registered ''a'' ''1'' DONE])\<lparr>delete_faults := [(''a'', ''1'')]\<rparr>)))
     = Some [registered ''a'' ''1'' DONE]
   \<and> registry_after (delete reference_env None None None None True False
        (start (site (numbered 51))))
     = Some [registered ''svc'' (replicate 51 (CHR ''v'')) DONE]"
proof
  let ?w = "(site [registered ''a'' ''1'' DONE])\<lparr>delete_faults := [(''a'', ''1'')]\<rparr>"
  let ?s = "logger InfoDeletingAll (start ?w)"
  have "\<exists>s'. delete_loop reference_env None None False 0 ?s = Some (Inr (), s')
     \<and> registry (world s')
         = filter (\<lambda>b. \<not> matches (page_request None [] 0) b
                        \<or> ref_of b \<in> set (delete_faults (world ?s))) (registry (world ?s))
     \<and> list_requests (calls s') = list_requests (calls ?s) @
          (if filter (matches (page_request None [] 0)) (registry (world ?s)) = []
           then [page_request None [] 0]
           else [page_request None [] 0, page_request None [] 50])"
    by (rule bulk_delete_filtered) (simp_all add: no_colon_def registered_def)
  then show "registry_after (delete reference_env None None None None True False (start ?w))
     = Some [registered ''a'' ''1'' DONE]"
    by (auto simp: delete_def registry_after_def ref_of_def registered_def)
next
  let ?s = "logger InfoDeletingAll (start (site (numbered 51)))"
  have "\<exists>s'. delete_loop reference_env None None False 0 ?s = Some (Inr (), s')
     \<and> registry (world s') = drop 50 (registry (world ?s))"
    by (rule bulk_delete_two_pages) (simp_all add: distinct_numbered no_colon_numbered)
  then show "registry_after (delete reference_env None None None None True False
        (start (site (numbered 51))))
     = Some [registered ''svc'' (replicate 51 (CHR ''v'')) DONE]"
    by (auto simp: delete_def registry_after_def drop_numbered)
qed

text \<open>
  C9, evaluated where the authority answers the Get of the first listed bundle with a
  failure code: \<^verbatim>\<open>get\<close> raises inside \<^verbatim>\<open>_delete_bento_bundle\<close>, nothing catches it, and
  the bulk delete ends there. Nothing is logged for the failure and the second bundle of
  the page is never asked for.
\<close>

theorem bulk_delete_aborts_on_failed_get:
  "delete reference_env None None None None True False
      (start ((site [registered ''a'' ''1'' DONE, registered ''b'' ''1'' DONE])
                \<lparr>get_faults := [(''a'', ''1'')]\<rparr>))
   = Some (Inl (BentoNotFound ''a'' ''1'' status_internal),
           \<lparr>world = (site [registered ''a'' ''1'' DONE, registered ''b'' ''1'' DONE])
                       \<lparr>get_faults := [(''a'', ''1'')]\<rparr>,
            calls = [ListBentoCall (page_request None [] 0), GetBentoCall ''a'' ''1''],
            logs = [InfoDeletingAll]\<rparr>)"
  apply (simp add: delete_def)
  apply (subst delete_loop.simps)
  apply (simp add: list_reference_all page_of_all get_reference[of "''a''" "''1''", simplified]
      delete_bento_bundle_def registered_def logger_def start_def)
  done

section \<open>upload_from_dir\<close>














lemmas reference_defs =
  ref_GetBento_def ref_AddBento_def ref_UpdateBento_def ref_load_metadata_def ref_rmtree_def
  ref_copytree_def ref_tar_gz_def find_bento_def ref_of_def status_ok_def status_not_found_def
  status_internal_def status_already_exists_def

lemmas client_defs =
  upload_from_dir_def load_and_label_def upload_local_def upload_remote_def
  update_bento_upload_progress_def update_bento_req_def logger_def
  call_GetBento_def call_AddBento_def call_UpdateBento_def call_path_exists_def call_rmtree_def
  call_copytree_def call_tar_gz_def call_requests_put_def

lemmas example_defs =
  site_def start_def registered_def demo_metadata_def local_storage_def s3_storage_def
  azure_storage_def

text \<open>
  C3. When the metadata is read (and the labels, if any, pass validation) and the
  authority answers the Get of the reference with OK, the upload raises the
  already-registered error; when it answers with a code other than OK and NotFound, the
  upload raises the authority's status. In both cases the Get is the only call made: no
  Add, no file system operation, no HTTP request, nothing logged.
\<close>

theorem upload_already_registered:
  assumes "load_and_label env saved_bento_path labels s = Inr md"
    and "GetBento env (md_name md) (md_version md) (world s) = (r, w)"
  shows "(status_code (get_status r) = OK \<longrightarrow>
            upload_from_dir env saved_bento_path labels s
              = (Inl (AlreadyRegistered (md_name md) (md_version md)),
                 s\<lparr>world := w, calls := calls s @ [GetBentoCall (md_name md) (md_version md)]\<rparr>))
       \<and> (status_code (get_status r) \<noteq> OK \<and> status_code (get_status r) \<noteq> NOT_FOUND \<longrightarrow>
            upload_from_dir env saved_bento_path labels s
              = (Inl (FailedAccessingYataiService (get_status r)),
                 s\<lparr>world := w, calls := calls s @ [GetBentoCall (md_name md) (md_version md)]\<rparr>))"
  using assms by (simp add: upload_from_dir_def call_GetBento_def)

theorem upload_already_registered_witness:
  "upload_from_dir reference_env ''/tmp/bundle'' None
      (start (site [registered ''demo'' ''1.0.0'' DONE]))
     = (Inl (AlreadyRegistered ''demo'' ''1.0.0''),
        \<lparr>world = site [registered ''demo'' ''1.0.0'' DONE],
         calls = [GetBentoCall ''demo'' ''1.0.0''], logs = []\<rparr>)
   \<and> upload_from_dir reference_env ''/tmp/bundle'' None
      (start ((site [])\<lparr>get_faults := [(''demo'', ''1.0.0'')]\<rparr>))
     = (Inl (FailedAccessingYataiService status_internal),
        \<lparr>world = (site [])\<lparr>get_faults := [(''demo'', ''1.0.0'')]\<rparr>,
         calls = [GetBentoCall ''demo'' ''1.0.0''], logs = []\<rparr>)"
proof
  let ?w = "site [registered ''demo'' ''1.0.0'' DONE]"
  have l: "load_and_label reference_env ''/tmp/bundle'' None (start ?w) = Inr demo_metadata"
    by (simp add: client_defs reference_defs example_defs)
  have g: "GetBento reference_env (md_name demo_metadata) (md_version demo_metadata) (world (start ?w))
      = (\<lparr>get_status = status_ok, get_bento = registered ''demo'' ''1.0.0'' DONE\<rparr>, ?w)"
    by (simp add: reference_defs example_defs)
  show "upload_from_dir reference_env ''/tmp/bundle'' None (start ?w)
     = (Inl (AlreadyRegistered ''demo'' ''1.0.0''),
        \<lparr>world = ?w, calls = [GetBentoCall ''demo'' ''1.0.0''], logs = []\<rparr>)"
    using upload_already_registered[OF l g]
    by (simp add: status_ok_def demo_metadata_def start_def)
next
  let ?w = "(site [])\<lparr>get_faults := [(''demo'', ''1.0.0'')]\<rparr>"
  have l: "load_and_label reference_env ''/tmp/bundle'' None (start ?w) = Inr demo_metadata"
    by (simp add: client_defs reference_defs example_defs)
  have g: "GetBento reference_env (md_name demo_metadata) (md_version demo_metadata) (world (start ?w))
      = (\<lparr>get_status = status_internal, get_bento = empty_bento\<rparr>, ?w)"
    by (simp add: reference_defs example_defs)
  show "upload_from_dir reference_env ''/tmp/bundle'' None (start ?w)
     = (Inl (FailedAccessingYataiService status_internal),
        \<lparr>world = ?w, calls = [GetBentoCall ''demo'' ''1.0.0''], logs = []\<rparr>)"
    using upload_already_registered[OF l g]
    by (simp add: status_internal_def demo_metadata_def start_def)
qed

text \<open>
  C7. An upload the authority dispatches to a Local destination asks whether the
  destination exists, removes it when it does, copies the source tree there, reports
  Done and returns the URI the authority gave, in this order, provided the removal and
  the copy do not raise. On the reference file system the destination then holds the
  source tree and nothing of what was there before.
\<close>

theorem local_upload_replaces_destination:
  assumes "load_and_label env saved_bento_path labels s = Inr md"
    and "GetBento env (md_name md) (md_version md) (world s) = (gr, w1)"
    and "status_code (get_status gr) = NOT_FOUND"
    and "AddBento env (md_name md) (md_version md) w1 = (ar, w2)"
    and "status_code (add_status ar) = OK"
    and "uri_type (add_uri ar) = LOCAL"
    and "dst = uri_uri (add_uri ar)"
    and "(if path_exists env dst w2 then rmtree env dst w2 else (None, w2)) = (None, w3)"
    and "copytree env saved_bento_path dst w3 = (None, w4)"
  shows "upload_from_dir env saved_bento_path labels s
           = (Inr dst,
              \<lparr>world = UpdateBento env (update_bento_req md DONE None) w4,
               calls = calls s @
                 [GetBentoCall (md_name md) (md_version md),
                  AddBentoCall (md_name md) (md_version md),
                  PathExistsCall dst] @
                 (if path_exists env dst w2 then [RmtreeCall dst] else []) @
                 [CopytreeCall saved_bento_path dst,
                  UpdateBentoCall (update_bento_req md DONE None)],
               logs = logs s @ [InfoSavedTo (md_name md) (md_version md) dst]\<rparr>)"
  using assms
  by (auto simp add: upload_from_dir_def upload_local_def update_bento_upload_progress_def
      call_GetBento_def call_AddBento_def call_UpdateBento_def call_path_exists_def
      call_rmtree_def call_copytree_def logger_def Let_def
      split: prod.splits option.splits if_splits)

theorem local_upload_replaces_destination_witness:
  "fst (upload_from_dir reference_env ''/tmp/bundle'' None (start stale_site))
     = Inr ''/repo/demo/1.0.0''
   \<and> calls (snd (upload_from_dir reference_env ''/tmp/bundle'' None (start stale_site)))
     = [GetBentoCall ''demo'' ''1.0.0'', AddBentoCall ''demo'' ''1.0.0'',
        PathExistsCall ''/repo/demo/1.0.0'', RmtreeCall ''/repo/demo/1.0.0'',
        CopytreeCall ''/tmp/bundle'' ''/repo/demo/1.0.0'',
        UpdateBentoCall (update_bento_req demo_metadata DONE None)]
   \<and> dirs (world (snd (upload_from_dir reference_env ''/tmp/bundle'' None (start stale_site))))
        ''/repo/demo/1.0.0''
     = Some (demo_metadata, ''model.pkl'')
   \<and> status_at ''demo'' ''1.0.0''
        (world (snd (upload_from_dir reference_env ''/tmp/bundle'' None (start stale_site))))
     = Some DONE"
proof -
  let ?w = "stale_site"
  let ?dst = "''/repo/demo/1.0.0''"
  let ?gr = "\<lparr>get_status = status_not_found, get_bento = empty_bento\<rparr>"
  let ?ar = "\<lparr>add_status = status_ok, add_uri = local_storage ''demo'' ''1.0.0''\<rparr>"
  let ?w2 = "?w\<lparr>registry :=
                [\<lparr>pb_name = ''demo'', pb_version = ''1.0.0'', pb_uri = local_storage ''demo'' ''1.0.0'',
                  pb_metadata = \<lparr>md_name = ''demo'', md_version = ''1.0.0'', md_labels = []\<rparr>,
                  pb_status = \<lparr>us_status = PENDING, us_percentage = None\<rparr>\<rparr>]\<rparr>"
  let ?w3 = "?w2\<lparr>dirs := (dirs ?w2)(?dst := None)\<rparr>"
  let ?w4 = "?w3\<lparr>dirs := (dirs ?w3)(?dst \<mapsto> (demo_metadata, ''model.pkl''))\<rparr>"
  have l: "load_and_label reference_env ''/tmp/bundle'' None (start ?w) = Inr demo_metadata"
    by (simp add: client_defs reference_defs example_defs stale_site_def)
  have g: "GetBento reference_env (md_name demo_metadata) (md_version demo_metadata)
             (world (start ?w)) = (?gr, ?w)"
    by (simp add: reference_defs example_defs stale_site_def)
  have g2: "status_code (get_status ?gr) = NOT_FOUND" by (simp add: status_not_found_def)
  have a: "AddBento reference_env (md_name demo_metadata) (md_version demo_metadata) ?w = (?ar, ?w2)"
    by (simp add: reference_defs example_defs stale_site_def)
  have a2: "status_code (add_status ?ar) = OK" by (simp add: status_ok_def)
  have a3: "uri_type (add_uri ?ar) = LOCAL" by (simp add: local_storage_def)
  have d: "?dst = uri_uri (add_uri ?ar)" by (simp add: local_storage_def)
  have ex: "path_exists reference_env ?dst ?w2" by (simp add: stale_site_def)
  have rm: "(if path_exists reference_env ?dst ?w2 then rmtree reference_env ?dst ?w2 else (None, ?w2))
      = (None, ?w3)"
    by (simp add: ref_rmtree_def stale_site_def)
  have cp: "copytree reference_env ''/tmp/bundle'' ?dst ?w3 = (None, ?w4)"
    by (simp add: ref_copytree_def stale_site_def example_defs)
  note th = local_upload_replaces_destination[OF l g g2 a a2 a3 d rm cp]
  have 1: "fst (upload_from_dir reference_env ''/tmp/bundle'' None (start ?w)) = Inr ?dst"
    using th by simp
  have 2: "calls (snd (upload_from_dir reference_env ''/tmp/bundle'' None (start ?w)))
     = [GetBentoCall ''demo'' ''1.0.0'', AddBentoCall ''demo'' ''1.0.0'',
        PathExistsCall ?dst, RmtreeCall ?dst, CopytreeCall ''/tmp/bundle'' ?dst,
        UpdateBentoCall (update_bento_req demo_metadata DONE None)]"
    using th ex by (simp add: start_def demo_metadata_def)
  have 3: "world (snd (upload_from_dir reference_env ''/tmp/bundle'' None (start ?w)))
     = ref_UpdateBento (update_bento_req demo_metadata DONE None) ?w4"
    using th by simp
  have 4: "dirs (ref_UpdateBento (update_bento_req demo_metadata DONE None) ?w4) ?dst
     = Some (demo_metadata, ''model.pkl'')"
    by (simp add: ref_UpdateBento_def)
  have 5: "status_at ''demo'' ''1.0.0'' (ref_UpdateBento (update_bento_req demo_metadata DONE None) ?w4)
     = Some DONE"
    by (simp add: ref_UpdateBento_def update_bento_req_def demo_metadata_def status_at_def
        find_bento_def ref_of_def)
  show ?thesis using 1 2 3 4 5 by simp
qed

text \<open>
  C6 (amended). In a remote upload (S3 or GCS) whose archive was built and whose PUT was
  answered, every answer with a status code other than 200 makes the client report Error
  to the authority and then raise the transfer error carrying the storage kind, the
  status code and the body; the Error update is the last call made. Only the status code
  200 leads to the Done update and the normal return of the URI.
\<close>

theorem remote_upload_http_status:
  assumes "load_and_label env saved_bento_path labels s = Inr md"
    and "GetBento env (md_name md) (md_version md) (world s) = (gr, w1)"
    and "status_code (get_status gr) = NOT_FOUND"
    and "AddBento env (md_name md) (md_version md) w1 = (ar, w2)"
    and "status_code (add_status ar) = OK"
    and "uri_type (add_uri ar) = S3 \<or> uri_type (add_uri ar) = GCS"
    and "url = (if uri_type (add_uri ar) = S3 then s3_presigned_url (add_uri ar)
                else gcs_presigned_url (add_uri ar))"
    and "w3 = UpdateBento env (update_bento_req md UPLOADING (Some 0)) w2"
    and "tar_gz env saved_bento_path (md_name md) w3 = Inr fileobj"
    and "requests_put env url fileobj w3 = (Inr resp, w4)"
    and "pre = [GetBentoCall (md_name md) (md_version md),
                AddBentoCall (md_name md) (md_version md),
                UpdateBentoCall (update_bento_req md UPLOADING (Some 0)),
                TarCall saved_bento_path (md_name md),
                PutCall url fileobj]"
  shows "(http_status_code resp \<noteq> 200 \<longrightarrow>
            upload_from_dir env saved_bento_path labels s
              = (Inl (ErrorSavingBundle (if uri_type (add_uri ar) = S3 then ''S3'' else ''GCS'')
                        (http_status_code resp) (http_text resp)),
                 \<lparr>world = UpdateBento env (update_bento_req md ERROR None) w4,
                  calls = calls s @ pre @ [UpdateBentoCall (update_bento_req md ERROR None)],
                  logs = logs s\<rparr>))
       \<and> (http_status_code resp = 200 \<longrightarrow>
            upload_from_dir env saved_bento_path labels s
              = (Inr (uri_uri (add_uri ar)),
                 \<lparr>world = UpdateBento env (update_bento_req md DONE None) w4,
                  calls = calls s @ pre @ [UpdateBentoCall (update_bento_req md DONE None)],
                  logs = logs s @ [InfoSavedToRemote (md_name md) (md_version md)
                                     (uri_uri (add_uri ar))]\<rparr>))"
  using assms
  by (auto simp add: upload_from_dir_def upload_remote_def update_bento_upload_progress_def
      call_GetBento_def call_AddBento_def call_UpdateBento_def call_tar_gz_def
      call_requests_put_def logger_def Let_def)

theorem remote_upload_http_status_witness:
  "fst (upload_from_dir reference_env ''/tmp/bundle'' None (start (s3_site 500 ''oops'')))
     = Inl (ErrorSavingBundle ''S3'' 500 ''oops'')
   \<and> update_requests (calls (snd (upload_from_dir reference_env ''/tmp/bundle'' None
                                     (start (s3_site 500 ''oops'')))))
     = [update_bento_req demo_metadata UPLOADING (Some 0), update_bento_req demo_metadata ERROR None]
   \<and> fst (upload_from_dir reference_env ''/tmp/bundle'' None (start (s3_site 200 [])))
     = Inr ''s3://bucket/demo/1.0.0''
   \<and> update_requests (calls (snd (upload_from_dir reference_env ''/tmp/bundle'' None
                                     (start (s3_site 200 [])))))
     = [update_bento_req demo_metadata UPLOADING (Some 0), update_bento_req demo_metadata DONE None]"
proof -
  have h: "fst (upload_from_dir reference_env ''/tmp/bundle'' None (start (s3_site code body)))
        = (if code \<noteq> 200 then Inl (ErrorSavingBundle ''S3'' code body) else Inr ''s3://bucket/demo/1.0.0'')
      \<and> update_requests (calls (snd (upload_from_dir reference_env ''/tmp/bundle'' None
                                     (start (s3_site code body)))))
        = [update_bento_req demo_metadata UPLOADING (Some 0),
           update_bento_req demo_metadata (if code \<noteq> 200 then ERROR else DONE) None]" for code body
  proof -
    let ?w = "s3_site code body"
    let ?gr = "\<lparr>get_status = status_not_found, get_bento = empty_bento\<rparr>"
    let ?ar = "\<lparr>add_status = status_ok, add_uri = s3_storage ''demo'' ''1.0.0''\<rparr>"
    let ?w2 = "?w\<lparr>registry :=
                [\<lparr>pb_name = ''demo'', pb_version = ''1.0.0'', pb_uri = s3_storage ''demo'' ''1.0.0'',
                  pb_metadata = \<lparr>md_name = ''demo'', md_version = ''1.0.0'', md_labels = []\<rparr>,
                  pb_status = \<lparr>us_status = PENDING, us_percentage = None\<rparr>\<rparr>]\<rparr>"
    let ?w3 = "UpdateBento reference_env (update_bento_req demo_metadata UPLOADING (Some 0)) ?w2"
    let ?url = "''https://s3.example/put/demo/1.0.0''"
    let ?resp = "\<lparr>http_status_code = code, http_text = body\<rparr>"
    have l: "load_and_label reference_env ''/tmp/bundle'' None (start ?w) = Inr demo_metadata"
      by (simp add: client_defs reference_defs example_defs s3_site_def)
    have g: "GetBento reference_env (md_name demo_metadata) (md_version demo_metadata)
               (world (start ?w)) = (?gr, ?w)"
      by (simp add: reference_defs example_defs s3_site_def)
    have g2: "status_code (get_status ?gr) = NOT_FOUND"
      by (simp add: status_not_found_def)
    have a: "AddBento reference_env (md_name demo_metadata) (md_version demo_metadata) ?w
               = (?ar, ?w2)"
      by (simp add: reference_defs example_defs s3_site_def)
    have a2: "status_code (add_status ?ar) = OK" by (simp add: status_ok_def)
    have a3: "uri_type (add_uri ?ar) = S3 \<or> uri_type (add_uri ?ar) = GCS"
      by (simp add: s3_storage_def)
    have u: "?url = (if uri_type (add_uri ?ar) = S3 then s3_presigned_url (add_uri ?ar)
                else gcs_presigned_url (add_uri ?ar))"
      by (simp add: s3_storage_def)
    have t: "tar_gz reference_env ''/tmp/bundle'' (md_name demo_metadata) ?w3 = Inr ''demo/model.pkl''"
      by (simp add: ref_tar_gz_def ref_UpdateBento_def example_defs s3_site_def)
    have p: "requests_put reference_env ?url ''demo/model.pkl'' ?w3 = (Inr ?resp, ?w3)"
      by (simp add: ref_UpdateBento_def example_defs s3_site_def)
    note th = remote_upload_http_status[OF l g g2 a a2 a3 u refl t p refl]
    have su: "uri_uri (add_uri ?ar) = ''s3://bucket/demo/1.0.0''" "uri_type (add_uri ?ar) = S3"
      by (simp_all add: s3_storage_def)
    have "fst (upload_from_dir reference_env ''/tmp/bundle'' None (start ?w))
        = (if code \<noteq> 200 then Inl (ErrorSavingBundle ''S3'' code body) else Inr ''s3://bucket/demo/1.0.0'')"
      using th[THEN conjunct1] th[THEN conjunct2] su by (cases "code = 200") simp_all
    moreover have "calls (snd (upload_from_dir reference_env ''/tmp/bundle'' None (start ?w)))
        = [GetBentoCall (md_name demo_metadata) (md_version demo_metadata),
           AddBentoCall (md_name demo_metadata) (md_version demo_metadata),
           UpdateBentoCall (update_bento_req demo_metadata UPLOADING (Some 0)),
           TarCall ''/tmp/bundle'' (md_name demo_metadata),
           PutCall ?url ''demo/model.pkl'',
           UpdateBentoCall (update_bento_req demo_metadata (if code \<noteq> 200 then ERROR else DONE) None)]"
      using th[THEN conjunct1] th[THEN conjunct2] by (cases "code = 200") (simp_all add: start_def)
    ultimately show ?thesis by simp
  qed
  show ?thesis using h[of 500 "''oops''"] h[of 200 "[]"] by simp
qed

text \<open>
  C6 as stated fails for the 2xx codes other than 200: a PUT answered 201 Created ends
  in the transfer error, with Error recorded at the authority.
\<close>

theorem remote_upload_created_is_error:
  "fst (upload_from_dir reference_env ''/tmp/bundle'' None (start (s3_site 201 ''Created'')))
     = Inl (ErrorSavingBundle ''S3'' 201 ''Created'')
   \<and> status_at ''demo'' ''1.0.0''
        (world (snd (upload_from_dir reference_env ''/tmp/bundle'' None
                       (start (s3_site 201 ''Created'')))))
     = Some ERROR"
  by (simp add: client_defs reference_defs example_defs status_at_def s3_site_def)




text \<open>
  Beyond the cases of the amended C2: when the authority assigns a storage type the
  client does not know, the upload raises after the reference was added and no update is
  issued; the recorded status stays Pending.
\<close>

lemma upload_unsupported_storage_leaves_pending:
  "fst (upload_from_dir reference_env ''/tmp/bundle'' None
          (start ((site [])\<lparr>storage := azure_storage\<rparr>)))
     = Inl (UriTypeNotSupported (OTHER_STORAGE 4) ''azure://container/demo/1.0.0'')
   \<and> status_at ''demo'' ''1.0.0''
        (world (snd (upload_from_dir reference_env ''/tmp/bundle'' None
          (start ((site [])\<lparr>storage := azure_storage\<rparr>)))))
     = Some PENDING
   \<and> update_requests (calls (snd (upload_from_dir reference_env ''/tmp/bundle'' None
          (start ((site [])\<lparr>storage := azure_storage\<rparr>))))) = []"
  by (simp add: client_defs reference_defs example_defs status_at_def)

section \<open>download_to_directory and push\<close>

text \<open>
  C8. The location a bundle is read from is the S3 presigned URL when that field is not
  empty, else the GCS presigned URL when that one is not empty, else the direct URI;
  \<^verbatim>\<open>download_to_directory\<close> retrieves from it and \<^verbatim>\<open>push\<close> uploads from it.
\<close>

theorem storage_location_prefers_presigned:
  "(s3_presigned_url (pb_uri pb) \<noteq> [] \<longrightarrow>
      download_to_directory env pb target s
        = call_safe_retrieve env (s3_presigned_url (pb_uri pb)) target s
      \<and> (get local_yc bento s = (Inr pb, s1) \<longrightarrow>
           push local_yc env bento with_labels s
             = upload_from_dir env (s3_presigned_url (pb_uri pb))
                 (if with_labels \<and> md_labels (pb_metadata pb) \<noteq> []
                  then Some (md_labels (pb_metadata pb)) else None) s1))
   \<and> (s3_presigned_url (pb_uri pb) = [] \<and> gcs_presigned_url (pb_uri pb) \<noteq> [] \<longrightarrow>
      download_to_directory env pb target s
        = call_safe_retrieve env (gcs_presigned_url (pb_uri pb)) target s
      \<and> (get local_yc bento s = (Inr pb, s1) \<longrightarrow>
           push local_yc env bento with_labels s
             = upload_from_dir env (gcs_presigned_url (pb_uri pb))
                 (if with_labels \<and> md_labels (pb_metadata pb) \<noteq> []
                  then Some (md_labels (pb_metadata pb)) else None) s1))
   \<and> (s3_presigned_url (pb_uri pb) = [] \<and> gcs_presigned_url (pb_uri pb) = [] \<longrightarrow>
      download_to_directory env pb target s
        = call_safe_retrieve env (uri_uri (pb_uri pb)) target s
      \<and> (get local_yc bento s = (Inr pb, s1) \<longrightarrow>
           push local_yc env bento with_labels s
             = upload_from_dir env (uri_uri (pb_uri pb))
                 (if with_labels \<and> md_labels (pb_metadata pb) \<noteq> []
                  then Some (md_labels (pb_metadata pb)) else None) s1))"
  by (simp add: download_to_directory_def push_def Let_def)

theorem storage_location_prefers_presigned_witness:
  "download_to_directory reference_env s3_bento ''/target'' (start (site []))
     = call_safe_retrieve reference_env ''https://s3.example/put/demo/1.0.0'' ''/target''
         (start (site []))
   \<and> download_to_directory reference_env gcs_bento ''/target'' (start (site []))
     = call_safe_retrieve reference_env ''https://gcs.example/get/demo/1.0.0'' ''/target''
         (start (site []))
   \<and> download_to_directory reference_env (registered ''demo'' ''1.0.0'' DONE) ''/target''
         (start (site []))
     = call_safe_retrieve reference_env ''/repo/demo/1.0.0'' ''/target'' (start (site []))
   \<and> push reference_env reference_env ''demo:1.0.0'' True
         (start (site [registered ''demo'' ''1.0.0'' DONE]))
     = upload_from_dir reference_env ''/repo/demo/1.0.0'' None
         ((start (site [registered ''demo'' ''1.0.0'' DONE]))
            \<lparr>calls := [GetBentoCall ''demo'' ''1.0.0'']\<rparr>)"
proof -
  let ?s = "start (site [registered ''demo'' ''1.0.0'' DONE])"
  let ?s1 = "?s\<lparr>calls := [GetBentoCall ''demo'' ''1.0.0'']\<rparr>"
  have g: "get reference_env ''demo:1.0.0'' ?s = (Inr (registered ''demo'' ''1.0.0'' DONE), ?s1)"
    using get_reference[of "''demo''" "''1.0.0''" ?s]
    by (simp add: find_bento_def ref_of_def registered_def start_def)
  note a = storage_location_prefers_presigned[where pb = s3_bento and env = reference_env
      and target = "''/target''" and s = "start (site [])"]
  note b = storage_location_prefers_presigned[where pb = gcs_bento and env = reference_env
      and target = "''/target''" and s = "start (site [])"]
  note c = storage_location_prefers_presigned[where pb = "registered ''demo'' ''1.0.0'' DONE"
      and env = reference_env and target = "''/target''" and s = "start (site [])"]
  note d = storage_location_prefers_presigned[where pb = "registered ''demo'' ''1.0.0'' DONE"
      and env = reference_env and local_yc = reference_env and bento = "''demo:1.0.0''"
      and s = ?s and ?s1.0 = ?s1 and with_labels = True]
  have 1: "download_to_directory reference_env s3_bento ''/target'' (start (site []))
     = call_safe_retrieve reference_env ''https://s3.example/put/demo/1.0.0'' ''/target''
         (start (site []))"
    using a[THEN conjunct1] by (simp add: s3_bento_def s3_storage_def)
  have 2: "download_to_directory reference_env gcs_bento ''/target'' (start (site []))
     = call_safe_retrieve reference_env ''https://gcs.example/get/demo/1.0.0'' ''/target''
         (start (site []))"
    using b[THEN conjunct2, THEN conjunct1] by (simp add: gcs_bento_def)
  have 3: "download_to_directory reference_env (registered ''demo'' ''1.0.0'' DONE) ''/target''
         (start (site []))
     = call_safe_retrieve reference_env ''/repo/demo/1.0.0'' ''/target'' (start (site []))"
    using c[THEN conjunct2, THEN conjunct2] by (simp add: registered_def local_storage_def)
  have 4: "push reference_env reference_env ''demo:1.0.0'' True ?s
     = upload_from_dir reference_env ''/repo/demo/1.0.0'' None ?s1"
    using d[THEN conjunct2, THEN conjunct2] g by (simp add: registered_def local_storage_def)
  show ?thesis using 1 2 3 4 by simp
qed

section \<open>Further facts about the per-bundle deletion and the build arguments\<close>

text \<open>
  A DangerouslyDelete answered with a failure code is logged and the step returns
  normally; a failed Get inside the step is raised, and ends the page.
\<close>

lemma failed_delete_is_logged:
  assumes "get env bento_tag s = (Inr pb, s1)"
    and "DangerouslyDeleteBento env (pb_name pb) (pb_version pb) (world s1) = (st, w)"
    and "status_code st \<noteq> OK"
  shows "delete_bento_bundle env bento_tag False s
     = (Inr (), \<lparr>world = w,
                 calls = calls s1 @ [DangerouslyDeleteBentoCall (pb_name pb) (pb_version pb)],
                 logs = logs s1 @ [ErrorFailedToDelete (pb_name pb) (pb_version pb) st]\<rparr>)"
  using assms
  by (simp add: delete_bento_bundle_def call_DangerouslyDeleteBento_def logger_def)

lemma failed_get_is_raised:
  assumes "get env bento_tag s = (Inl e, s1)"
  shows "delete_bento_bundle env bento_tag require_confirm s = (Inl e, s1)"
  using assms by (simp add: delete_bento_bundle_def)

lemma delete_page_aborts:
  assumes "delete_bento_bundle env (pb_name b @ '':'' @ pb_version b) require_confirm s = (Inl e, t)"
  shows "delete_page env (b # rest) require_confirm s = (Inl e, t)"
  using assms by simp

text \<open>
  The build arguments of containerize are cut at the first \<^verbatim>\<open>=\<close> only.
\<close>

lemma build_arg_splits_at_first_eq:
  "docker_build_args [''a=b=c''] [] = Inr [(''a'', ''b=c'')]"
  by (simp add: str_split1_def)

end
